theory Spec2Isabelle
  imports Main "HOL-Library.Char_ord"
begin

section \<open>JavaScript values\<close>

text \<open>
  The worker (\<^verbatim>\<open>src/index.js\<close>) receives a JSON body and JSON replies from the
  services it calls, and reads them with JavaScript's dynamic property access and
  truthiness. A \<open>jsval\<close> is a value that \<^verbatim>\<open>JSON.parse\<close> or a property read can
  produce. Strings are their UTF-8 byte sequences, so only well-formed strings are
  covered. \<open>JNum\<close> carries the integer-valued numbers (item identifiers are integers);
  fractional numbers are outside the model. An object is its list of own properties,
  read by the first binding of a key.
\<close>

datatype jsval =
    JUndefined
  | JNull
  | JBool bool
  | JNum int
  | JStr string
  | JArr "jsval list"
  | JObj "(string \<times> jsval) list"

text \<open>A thrown exception is an outcome of its own: \<open>Thrown\<close>, or \<open>Ret v\<close>.\<close>

datatype 'a outcome = Thrown | Ret 'a

fun truthy :: "jsval \<Rightarrow> bool" where
  "truthy JUndefined = False"
| "truthy JNull = False"
| "truthy (JBool b) = b"
| "truthy (JNum n) = (n \<noteq> 0)"
| "truthy (JStr s) = (s \<noteq> [])"
| "truthy (JArr xs) = True"
| "truthy (JObj kvs) = True"

text \<open>
  \<open>readProp v k\<close> is \<^verbatim>\<open>v.k\<close> on a receiver that is neither \<^verbatim>\<open>null\<close> nor
  \<^verbatim>\<open>undefined\<close>, for the property names the worker reads on parsed JSON (none of
  them is a member of a built-in prototype). \<open>get\<close> adds the TypeError of a read on
  \<^verbatim>\<open>null\<close> or \<^verbatim>\<open>undefined\<close>; \<open>optGet\<close> is \<^verbatim>\<open>v?.k\<close>; \<open>jsOr\<close> is
  \<^verbatim>\<open>a || b\<close>.
\<close>

fun readProp :: "jsval \<Rightarrow> string \<Rightarrow> jsval" where
  "readProp (JObj kvs) k = (case map_of kvs k of None \<Rightarrow> JUndefined | Some v \<Rightarrow> v)"
| "readProp v k = JUndefined"

definition nullish :: "jsval \<Rightarrow> bool" where
  "nullish v = (v = JUndefined \<or> v = JNull)"

definition get :: "jsval \<Rightarrow> string \<Rightarrow> jsval outcome" where
  "get v k = (if nullish v then Thrown else Ret (readProp v k))"

definition optGet :: "jsval \<Rightarrow> string \<Rightarrow> jsval" where
  "optGet v k = (if nullish v then JUndefined else readProp v k)"

definition jsOr :: "jsval \<Rightarrow> jsval \<Rightarrow> jsval" where
  "jsOr a b = (if truthy a then a else b)"

text \<open>\<^verbatim>\<open>v?.[0]\<close>: the first element of an array, the first unit of a string, the
  property \<^verbatim>\<open>"0"\<close> of an object.\<close>

fun optIndex0 :: "jsval \<Rightarrow> jsval" where
  "optIndex0 (JArr xs) = (case xs of [] \<Rightarrow> JUndefined | x # _ \<Rightarrow> x)"
| "optIndex0 (JStr s) = (case s of [] \<Rightarrow> JUndefined | c # _ \<Rightarrow> JStr [c])"
| "optIndex0 (JObj kvs) = readProp (JObj kvs) ''0''"
| "optIndex0 v = JUndefined"

subsection \<open>Conversion to string\<close>

fun digits :: "nat \<Rightarrow> string" where
  "digits n = (if n < 10 then [char_of (48 + n)] else digits (n div 10) @ [char_of (48 + n mod 10)])"

declare digits.simps [simp del]

fun joinWith :: "string \<Rightarrow> string list \<Rightarrow> string" where
  "joinWith sep [] = []"
| "joinWith sep [x] = x"
| "joinWith sep (x # y # ys) = x @ sep @ joinWith sep (y # ys)"

text \<open>\<^verbatim>\<open>String(v)\<close> and \<^verbatim>\<open>`${v}`\<close>. An integer is written in decimal, as
  JavaScript does for the integers it represents exactly. An array joins its elements
  with a comma, \<^verbatim>\<open>null\<close> and \<^verbatim>\<open>undefined\<close> elements giving the empty string.\<close>

fun toStr :: "jsval \<Rightarrow> string" where
  "toStr JUndefined = ''undefined''"
| "toStr JNull = ''null''"
| "toStr (JBool b) = (if b then ''true'' else ''false'')"
| "toStr (JNum n) = (if n < 0 then CHR ''-'' # digits (nat (- n)) else digits (nat n))"
| "toStr (JStr s) = s"
| "toStr (JArr xs) =
     joinWith '','' (map (\<lambda>x. case x of JNull \<Rightarrow> [] | JUndefined \<Rightarrow> [] | _ \<Rightarrow> toStr x) xs)"
| "toStr (JObj kvs) = ''[object Object]''"

text \<open>
  \<open>toStr v\<close> is the text of \<open>v\<close> on the values whose conversion returns and is exact,
  which \<open>coercible\<close> accepts. Outside them the source differs: an object with an own
  \<^verbatim>\<open>toString\<close> member (never a function in parsed JSON) makes the conversion throw a
  TypeError, also as an element of an array, and an integer of magnitude \<open>2^53\<close> or
  more is printed with its shortest round-trip digits or in exponent form. The handler
  converts the item identifier (lines 74 and 185), the asset's name and id (line 97), the
  CRM download URL (line 294) and the item's name (line 307); the functions below are
  the source on coercible values of these.
\<close>

fun coercible :: "jsval \<Rightarrow> bool" where
  "coercible (JNum n) = (- 9007199254740992 < n \<and> n < 9007199254740992)"
| "coercible (JArr xs) = list_all coercible xs"
| "coercible (JObj kvs) = (map_of kvs ''toString'' = None)"
| "coercible v = True"

subsection \<open>String helpers: split, toLowerCase, trim, encodeURIComponent\<close>

fun splitOn :: "char \<Rightarrow> string \<Rightarrow> string list" where
  "splitOn d [] = [[]]"
| "splitOn d (c # cs) =
     (if c = d then [] # splitOn d cs
      else (case splitOn d cs of [] \<Rightarrow> [[c]] | p # ps \<Rightarrow> (c # p) # ps))"

text \<open>
  \<^verbatim>\<open>toLowerCase\<close> on the ASCII letters. JavaScript also lowers letters beyond ASCII;
  no such letter lowers to a string of the keys looked up below (all ASCII, without
  \<^verbatim>\<open>k\<close>), so the lookup's result is the same.
\<close>

definition toLowerChar :: "char \<Rightarrow> char" where
  "toLowerChar c =
     (if CHR ''A'' \<le> c \<and> c \<le> CHR ''Z'' then char_of (of_char c + (32::nat)) else c)"

definition toLowerCase :: "string \<Rightarrow> string" where
  "toLowerCase s = map toLowerChar s"

text \<open>
  \<^verbatim>\<open>trim\<close> removes white space and line terminators from both ends: TAB, LF, VT, FF,
  CR, SP, and in UTF-8 U+00A0, U+1680, U+2000 to U+200A, U+2028, U+2029, U+202F, U+205F,
  U+3000 and U+FEFF.
\<close>

fun trimStart :: "string \<Rightarrow> string" where
  "trimStart [] = []"
| "trimStart (c # cs) =
     (if c \<in> {CHR 0x09, CHR 0x0A, CHR 0x0B, CHR 0x0C, CHR 0x0D, CHR 0x20} then trimStart cs
      else (case c # cs of
          a # b # r \<Rightarrow>
            if a = CHR 0xC2 \<and> b = CHR 0xA0 then trimStart r
            else (case r of
                d # r' \<Rightarrow>
                  if (a = CHR 0xE1 \<and> b = CHR 0x9A \<and> d = CHR 0x80)
                     \<or> (a = CHR 0xE2 \<and> b = CHR 0x80
                          \<and> ((CHR 0x80 \<le> d \<and> d \<le> CHR 0x8A) \<or> d = CHR 0xA8 \<or> d = CHR 0xA9
                               \<or> d = CHR 0xAF))
                     \<or> (a = CHR 0xE2 \<and> b = CHR 0x81 \<and> d = CHR 0x9F)
                     \<or> (a = CHR 0xE3 \<and> b = CHR 0x80 \<and> d = CHR 0x80)
                     \<or> (a = CHR 0xEF \<and> b = CHR 0xBB \<and> d = CHR 0xBF)
                  then trimStart r' else c # cs
              | [] \<Rightarrow> c # cs)
        | _ \<Rightarrow> c # cs))"

fun trimEndRev :: "string \<Rightarrow> string" where
  "trimEndRev [] = []"
| "trimEndRev (c # cs) =
     (if c \<in> {CHR 0x09, CHR 0x0A, CHR 0x0B, CHR 0x0C, CHR 0x0D, CHR 0x20} then trimEndRev cs
      else (case c # cs of
          b # a # r \<Rightarrow>
            if a = CHR 0xC2 \<and> b = CHR 0xA0 then trimEndRev r
            else (case r of
                a' # r' \<Rightarrow>
                  if (a' = CHR 0xE1 \<and> a = CHR 0x9A \<and> b = CHR 0x80)
                     \<or> (a' = CHR 0xE2 \<and> a = CHR 0x80
                          \<and> ((CHR 0x80 \<le> b \<and> b \<le> CHR 0x8A) \<or> b = CHR 0xA8 \<or> b = CHR 0xA9
                               \<or> b = CHR 0xAF))
                     \<or> (a' = CHR 0xE2 \<and> a = CHR 0x81 \<and> b = CHR 0x9F)
                     \<or> (a' = CHR 0xE3 \<and> a = CHR 0x80 \<and> b = CHR 0x80)
                     \<or> (a' = CHR 0xEF \<and> a = CHR 0xBB \<and> b = CHR 0xBF)
                  then trimEndRev r' else c # cs
              | [] \<Rightarrow> c # cs)
        | _ \<Rightarrow> c # cs))"

definition trim :: "string \<Rightarrow> string" where
  "trim s = rev (trimEndRev (rev (trimStart s)))"

text \<open>
  \<^verbatim>\<open>encodeURIComponent\<close>: every byte of the UTF-8 form is written \<^verbatim>\<open>%XX\<close> in
  upper-case hexadecimal, except the unreserved characters: letters, digits and
  \<^verbatim>\<open>- _ . ! ~ * ' ( )\<close>.
\<close>

definition unreserved :: "char \<Rightarrow> bool" where
  "unreserved c =
     ((CHR ''A'' \<le> c \<and> c \<le> CHR ''Z'') \<or> (CHR ''a'' \<le> c \<and> c \<le> CHR ''z'')
      \<or> (CHR ''0'' \<le> c \<and> c \<le> CHR ''9'')
      \<or> c \<in> {CHR ''-'', CHR ''_'', CHR ''.'', CHR ''!'', CHR ''~'', CHR ''*'', CHR 0x27,
              CHR ''('', CHR '')''})"

definition hexDigit :: "nat \<Rightarrow> char" where
  "hexDigit n = ''0123456789ABCDEF'' ! n"

definition encodeByte :: "char \<Rightarrow> string" where
  "encodeByte c =
     (if unreserved c then [c]
      else [CHR ''%'', hexDigit ((of_char c :: nat) div 16), hexDigit ((of_char c :: nat) mod 16)])"

definition encodeURIComponent :: "string \<Rightarrow> string" where
  "encodeURIComponent s = concat (map encodeByte s)"

text \<open>Percent-decoding, as a URL's reader does it; \<open>None\<close> on a malformed escape.\<close>

definition hexValue :: "char \<Rightarrow> nat option" where
  "hexValue c =
     (if CHR ''0'' \<le> c \<and> c \<le> CHR ''9'' then Some ((of_char c :: nat) - 48)
      else if CHR ''A'' \<le> c \<and> c \<le> CHR ''F'' then Some ((of_char c :: nat) - 55)
      else None)"

fun percentDecode :: "string \<Rightarrow> string option" where
  "percentDecode [] = Some []"
| "percentDecode (c # cs) =
     (if c = CHR ''%'' then
        (case cs of
           h # l # r \<Rightarrow>
             (case (hexValue h, hexValue l, percentDecode r) of
                (Some a, Some b, Some t) \<Rightarrow> Some (char_of (a * 16 + b) # t)
              | _ \<Rightarrow> None)
         | _ \<Rightarrow> None)
      else map_option (\<lambda>t. c # t) (percentDecode cs))"

section \<open>getMimeType\<close>

definition mimeTypes :: "(string \<times> string) list" where
  "mimeTypes =
     [(''pdf'', ''application/pdf''),
      (''png'', ''image/png''),
      (''jpg'', ''image/jpeg''),
      (''jpeg'', ''image/jpeg''),
      (''gif'', ''image/gif''),
      (''doc'', ''application/msword''),
      (''docx'', ''application/vnd.openxmlformats-officedocument.wordprocessingml.document''),
      (''xls'', ''application/vnd.ms-excel''),
      (''xlsx'', ''application/vnd.openxmlformats-officedocument.spreadsheetml.sheet''),
      (''csv'', ''text/csv''),
      (''txt'', ''text/plain''),
      (''html'', ''text/html''),
      (''zip'', ''application/zip'')]"

text \<open>
  \<^verbatim>\<open>mimeTypes\<close> is an object literal, so \<^verbatim>\<open>mimeTypes[ext]\<close> also finds the members
  it inherits from \<^verbatim>\<open>Object.prototype\<close>. Each of them is a function or an object,
  hence truthy, hence returned in place of the default.
\<close>

definition objectPrototypeKeys :: "string list" where
  "objectPrototypeKeys =
     [''constructor'', ''__defineGetter__'', ''__defineSetter__'', ''hasOwnProperty'',
      ''__lookupGetter__'', ''__lookupSetter__'', ''isPrototypeOf'', ''propertyIsEnumerable'',
      ''toString'', ''valueOf'', ''__proto__'', ''toLocaleString'']"

datatype mimeval = MimeStr string | Inherited string

definition fileExt :: "string \<Rightarrow> string" where
  "fileExt filename = toLowerCase (last (splitOn (CHR ''.'') filename))"

definition lookupMime :: "string \<Rightarrow> mimeval" where
  "lookupMime ext =
     (case map_of mimeTypes ext of
        Some m \<Rightarrow> MimeStr m
      | None \<Rightarrow>
          if ext \<in> set objectPrototypeKeys then Inherited ext
          else MimeStr ''application/octet-stream'')"

text \<open>A \<^verbatim>\<open>filename\<close> that is not a string has no \<^verbatim>\<open>split\<close>: TypeError.\<close>

fun getMimeType :: "jsval \<Rightarrow> mimeval outcome" where
  "getMimeType (JStr filename) = Ret (lookupMime (fileExt filename))"
| "getMimeType v = Thrown"

section \<open>Configuration, outbound calls and replies\<close>

record env =
  MONDAY_API_TOKEN :: string
  CLOSE_API_KEY :: string
  NAFA_FILE_COLUMN_ID :: string
  CLOSE_LEAD_ID_COLUMN_ID :: string
  CLOSE_NAFA_URL_FIELD_ID :: string
  R2_PUBLIC_URL :: string

text \<open>
  Every outbound operation of the worker is a \<open>call\<close>, with the arguments the source
  sends:
  \<^item> \<open>MondayQuery token itemId columnId leadColumnId\<close>: the GraphQL POST of
    \<^verbatim>\<open>getMondayItemData\<close>;
  \<^item> \<open>MondayDownload publicUrl\<close>: the GET of \<^verbatim>\<open>downloadMondayFile\<close>;
  \<^item> \<open>CloseFileInit apiKey filename contentType\<close> and
    \<open>S3Upload uploadUrl uploadFields filename contentType fileData\<close>: the two steps of
    \<^verbatim>\<open>uploadFileToClose\<close>;
  \<^item> \<open>R2Put key fileData contentType\<close>: \<^verbatim>\<open>env.NAFA_BUCKET.put\<close>;
  \<^item> \<open>CloseLeadPut apiKey leadId fieldId r2Url\<close>: the PUT of
    \<^verbatim>\<open>updateCloseLeadField\<close>;
  \<^item> \<open>CloseNotePost apiKey leadId filename fileUrl contentType itemName\<close>: the POST of
    \<^verbatim>\<open>createCloseNote\<close>.
\<close>

datatype call =
    MondayQuery string string string string
  | MondayDownload jsval
  | CloseFileInit string jsval mimeval
  | S3Upload jsval jsval jsval mimeval string
  | R2Put string string mimeval
  | CloseLeadPut string string string string
  | CloseNotePost string string jsval jsval mimeval jsval

text \<open>
  A call either throws (a rejected \<^verbatim>\<open>fetch\<close>, a failing \<^verbatim>\<open>put\<close>) or answers
  with a status, the body parsed as JSON (\<open>None\<close> when it is not JSON, so that
  \<^verbatim>\<open>response.json()\<close> throws) and the body's bytes.
\<close>

datatype reply = Threw | Reply nat "jsval option" string

text \<open>
  The outside world: \<open>respond w tr c\<close> is the reply to call \<open>c\<close> made after the calls
  \<open>tr\<close>; \<open>dateValue w v\<close> is the time value of \<^verbatim>\<open>new Date(v)\<close> in milliseconds,
  \<open>None\<close> for an invalid date (NaN). Console output is not modelled, nor a failure
  while a reply's body is read as text or as bytes, nor \<^verbatim>\<open>btoa\<close> on the API key.
\<close>

record platform =
  respond :: "call list \<Rightarrow> call \<Rightarrow> reply"
  dateValue :: "jsval \<Rightarrow> int option"

definition perform :: "platform \<Rightarrow> call list \<Rightarrow> call \<Rightarrow> reply \<times> call list" where
  "perform w tr c = (respond w tr c, tr @ [c])"

definition ok :: "nat \<Rightarrow> bool" where
  "ok st = (200 \<le> st \<and> st \<le> 299)"

datatype rbody = Text string | JsonText jsval

record response =
  status :: nat
  body :: rbody

record request =
  "method" :: string
  json :: "jsval option"

section \<open>Monday.com helpers\<close>

record itemData =
  name :: jsval
  closeLeadId :: jsval
  assets :: "jsval list"

text \<open>\<^verbatim>\<open>column_values?.find((col) => col.id === env.CLOSE_LEAD_ID_COLUMN_ID)\<close>\<close>

fun findCol :: "string \<Rightarrow> jsval list \<Rightarrow> jsval outcome" where
  "findCol cid [] = Ret JUndefined"
| "findCol cid (col # cols) =
     (case get col ''id'' of
        Thrown \<Rightarrow> Thrown
      | Ret i \<Rightarrow> if i = JStr cid then Ret col else findCol cid cols)"

definition closeLeadIdColumn :: "env \<Rightarrow> jsval \<Rightarrow> jsval outcome" where
  "closeLeadIdColumn e item =
     (case readProp item ''column_values'' of
        JUndefined \<Rightarrow> Ret JUndefined
      | JNull \<Rightarrow> Ret JUndefined
      | JArr cols \<Rightarrow> findCol (CLOSE_LEAD_ID_COLUMN_ID e) cols
      | _ \<Rightarrow> Thrown)"

text \<open>\<^verbatim>\<open>rawLeadId?.trim() || null\<close>; a truthy value that is not a string has no
  \<^verbatim>\<open>trim\<close>.\<close>

fun trimmedOrNull :: "jsval \<Rightarrow> jsval outcome" where
  "trimmedOrNull JUndefined = Ret JNull"
| "trimmedOrNull JNull = Ret JNull"
| "trimmedOrNull (JStr s) = Ret (jsOr (JStr (trim s)) JNull)"
| "trimmedOrNull v = Thrown"

text \<open>
  \<^verbatim>\<open>allAssets.sort((a, b) => new Date(b.created_at) - new Date(a.created_at))\<close>.
  The comparator's NaN counts as 0. \<^verbatim>\<open>Array.prototype.sort\<close> is stable; it is
  written here as an insertion sort, which the language fixes only for a consistent
  comparator. With two or more elements every element is compared, so a \<^verbatim>\<open>null\<close>
  element makes the comparator throw.
\<close>

definition createdAt :: "platform \<Rightarrow> jsval \<Rightarrow> int option" where
  "createdAt w a = dateValue w (readProp a ''created_at'')"

definition byCreatedDesc :: "platform \<Rightarrow> jsval \<Rightarrow> jsval \<Rightarrow> int" where
  "byCreatedDesc w a b =
     (case (createdAt w b, createdAt w a) of
        (Some tb, Some ta) \<Rightarrow> tb - ta
      | _ \<Rightarrow> 0)"

fun insertBy :: "('a \<Rightarrow> 'a \<Rightarrow> int) \<Rightarrow> 'a \<Rightarrow> 'a list \<Rightarrow> 'a list" where
  "insertBy cmp x [] = [x]"
| "insertBy cmp x (y # ys) = (if cmp x y \<le> 0 then x # y # ys else y # insertBy cmp x ys)"

definition sortBy :: "('a \<Rightarrow> 'a \<Rightarrow> int) \<Rightarrow> 'a list \<Rightarrow> 'a list" where
  "sortBy cmp xs = foldr (insertBy cmp) xs []"

text \<open>The order the sort is to establish: \<open>a\<close> may stand before \<open>b\<close> when \<open>a\<close> is
  not older than \<open>b\<close> (both dates valid).\<close>

definition newerFirst :: "platform \<Rightarrow> jsval \<Rightarrow> jsval \<Rightarrow> bool" where
  "newerFirst w a b = (the (createdAt w b) \<le> the (createdAt w a))"

definition sortAssets :: "platform \<Rightarrow> jsval list \<Rightarrow> jsval list outcome" where
  "sortAssets w xs =
     (if 2 \<le> length xs \<and> list_ex nullish xs then Thrown
      else Ret (sortBy (byCreatedDesc w) xs))"

text \<open>Lines 205 to 208: \<^verbatim>\<open>item.assets || []\<close>, sorted, cut to its first element.\<close>

definition latestAsset :: "platform \<Rightarrow> jsval \<Rightarrow> jsval list outcome" where
  "latestAsset w item =
     (case jsOr (readProp item ''assets'') (JArr []) of
        JArr allAssets \<Rightarrow>
          (case sortAssets w allAssets of
             Thrown \<Rightarrow> Thrown
           | Ret allSorted \<Rightarrow> Ret (if 0 < length allSorted then [allSorted ! 0] else []))
      | _ \<Rightarrow> Thrown)"

text \<open>Lines 191 to 214 of \<^verbatim>\<open>getMondayItemData\<close>, on the parsed reply \<open>data\<close>.\<close>

definition parseItemData :: "platform \<Rightarrow> env \<Rightarrow> jsval \<Rightarrow> itemData option outcome" where
  "parseItemData w e data =
     (case get data ''errors'' of
        Thrown \<Rightarrow> Thrown
      | Ret errors \<Rightarrow>
          if truthy errors then Ret None
          else
            let item = optIndex0 (optGet (optGet data ''data'') ''items'') in
            if \<not> truthy item then Ret None
            else
              (case closeLeadIdColumn e item of
                 Thrown \<Rightarrow> Thrown
               | Ret col \<Rightarrow>
                   let rawLeadId = jsOr (jsOr (optGet col ''text'') (optGet col ''display_value'')) JNull in
                   (case latestAsset w item of
                      Thrown \<Rightarrow> Thrown
                    | Ret latest \<Rightarrow>
                        (case trimmedOrNull rawLeadId of
                           Thrown \<Rightarrow> Thrown
                         | Ret lead \<Rightarrow>
                             Ret (Some \<lparr>name = readProp item ''name'', closeLeadId = lead,
                                        assets = latest\<rparr>)))))"

definition getMondayItemData ::
  "platform \<Rightarrow> env \<Rightarrow> jsval \<Rightarrow> call list \<Rightarrow> itemData option outcome \<times> call list" where
  "getMondayItemData w e itemId tr =
     (case perform w tr (MondayQuery (MONDAY_API_TOKEN e) (toStr itemId) (NAFA_FILE_COLUMN_ID e)
                           (CLOSE_LEAD_ID_COLUMN_ID e)) of
        (Threw, tr1) \<Rightarrow> (Thrown, tr1)
      | (Reply st parsed bytes, tr1) \<Rightarrow>
          (case parsed of
             None \<Rightarrow> (Thrown, tr1)
           | Some data \<Rightarrow> (parseItemData w e data, tr1)))"

text \<open>\<^verbatim>\<open>downloadMondayFile\<close>: \<open>None\<close> is \<^verbatim>\<open>null\<close>; a returned buffer is truthy even
  when it is empty.\<close>

definition downloadMondayFile :: "platform \<Rightarrow> jsval \<Rightarrow> call list \<Rightarrow> string option \<times> call list" where
  "downloadMondayFile w publicUrl tr =
     (if \<not> truthy publicUrl then (None, tr)
      else
        (case perform w tr (MondayDownload publicUrl) of
           (Threw, tr1) \<Rightarrow> (None, tr1)
         | (Reply st parsed bytes, tr1) \<Rightarrow> (if \<not> ok st then None else Some bytes, tr1)))"

section \<open>Close CRM helpers\<close>

definition uploadFileToClose ::
  "platform \<Rightarrow> env \<Rightarrow> jsval \<Rightarrow> mimeval \<Rightarrow> string \<Rightarrow> call list \<Rightarrow> jsval outcome \<times> call list" where
  "uploadFileToClose w e filename contentType fileData tr =
     (case perform w tr (CloseFileInit (CLOSE_API_KEY e) filename contentType) of
        (Threw, tr1) \<Rightarrow> (Thrown, tr1)
      | (Reply st parsed bytes, tr1) \<Rightarrow>
          if \<not> ok st then (Ret JNull, tr1)
          else
            (case parsed of
               None \<Rightarrow> (Thrown, tr1)
             | Some initData \<Rightarrow>
                 (case get initData ''upload'' of
                    Thrown \<Rightarrow> (Thrown, tr1)
                  | Ret upload \<Rightarrow>
                      let uploadUrl = optGet upload ''url'';
                          uploadFields = optGet upload ''fields'';
                          downloadUrl = optGet (readProp initData ''download'') ''url''
                      in
                        if \<not> truthy uploadUrl \<or> \<not> truthy uploadFields \<or> \<not> truthy downloadUrl
                        then (Ret JNull, tr1)
                        else
                          (case perform w tr1
                                  (S3Upload uploadUrl uploadFields filename contentType fileData) of
                             (Threw, tr2) \<Rightarrow> (Thrown, tr2)
                           | (Reply st2 parsed2 bytes2, tr2) \<Rightarrow>
                               if st2 \<noteq> 201 \<and> st2 \<noteq> 204 then (Ret JNull, tr2)
                               else (Ret downloadUrl, tr2)))))"

definition createCloseNote ::
  "platform \<Rightarrow> env \<Rightarrow> jsval \<Rightarrow> jsval \<Rightarrow> jsval \<Rightarrow> mimeval \<Rightarrow> jsval \<Rightarrow> jsval \<Rightarrow> call list
     \<Rightarrow> bool outcome \<times> call list" where
  "createCloseNote w e leadId filename fileUrl contentType itemName itemId tr =
     (case perform w tr
             (CloseNotePost (CLOSE_API_KEY e) (toStr leadId) filename fileUrl contentType itemName) of
        (Threw, tr1) \<Rightarrow> (Thrown, tr1)
      | (Reply st parsed bytes, tr1) \<Rightarrow> if \<not> ok st then (Ret False, tr1) else (Ret True, tr1))"

definition updateCloseLeadField ::
  "platform \<Rightarrow> env \<Rightarrow> jsval \<Rightarrow> jsval \<Rightarrow> call list \<Rightarrow> bool \<times> call list" where
  "updateCloseLeadField w e leadId r2Url tr =
     (case perform w tr
             (CloseLeadPut (CLOSE_API_KEY e) (toStr leadId) (CLOSE_NAFA_URL_FIELD_ID e)
                (toStr r2Url)) of
        (Threw, tr1) \<Rightarrow> (False, tr1)
      | (Reply st parsed bytes, tr1) \<Rightarrow> if \<not> ok st then (False, tr1) else (True, tr1))"

section \<open>R2 helper\<close>

definition r2Key :: "jsval \<Rightarrow> jsval \<Rightarrow> string" where
  "r2Key itemId filename = toStr itemId @ ''/'' @ toStr filename"

definition encodedKey :: "jsval \<Rightarrow> jsval \<Rightarrow> string" where
  "encodedKey itemId filename = toStr itemId @ ''/'' @ encodeURIComponent (toStr filename)"

definition uploadFileToR2 ::
  "platform \<Rightarrow> env \<Rightarrow> jsval \<Rightarrow> mimeval \<Rightarrow> string \<Rightarrow> jsval \<Rightarrow> call list \<Rightarrow> jsval \<times> call list" where
  "uploadFileToR2 w e filename contentType fileData itemId tr =
     (case perform w tr (R2Put (r2Key itemId filename) fileData contentType) of
        (Threw, tr1) \<Rightarrow> (JNull, tr1)
      | (Reply st parsed bytes, tr1) \<Rightarrow>
          (JStr (R2_PUBLIC_URL e @ ''/'' @ encodedKey itemId filename), tr1))"

section \<open>The request handler\<close>

text \<open>
  The body of the loop over \<^verbatim>\<open>assets\<close> (lines 96 to 132). The result names the
  branch that ended the iteration; \<^verbatim>\<open>continue\<close> and the end of the body both go on
  to the next asset, a thrown exception leaves the loop.
\<close>

datatype assetResult = DownloadFailed | CloseUploadFailed | Synced | NoteFailed

definition processAsset ::
  "platform \<Rightarrow> env \<Rightarrow> jsval \<Rightarrow> jsval \<Rightarrow> jsval \<Rightarrow> jsval \<Rightarrow> call list
     \<Rightarrow> assetResult outcome \<times> call list" where
  "processAsset w e itemId leadId itemName asset tr =
     (case get asset ''name'' of
        Thrown \<Rightarrow> (Thrown, tr)
      | Ret filename \<Rightarrow>
          (case downloadMondayFile w (readProp asset ''public_url'') tr of
             (None, tr1) \<Rightarrow> (Ret DownloadFailed, tr1)
           | (Some fileData, tr1) \<Rightarrow>
               (case getMimeType filename of
                  Thrown \<Rightarrow> (Thrown, tr1)
                | Ret contentType \<Rightarrow>
                    (case uploadFileToClose w e filename contentType fileData tr1 of
                       (Thrown, tr2) \<Rightarrow> (Thrown, tr2)
                     | (Ret closeFileUrl, tr2) \<Rightarrow>
                         if \<not> truthy closeFileUrl then (Ret CloseUploadFailed, tr2)
                         else
                           (case uploadFileToR2 w e filename contentType fileData itemId tr2 of
                              (r2PublicUrl, tr3) \<Rightarrow>
                                let tr4 =
                                      (if truthy r2PublicUrl
                                       then snd (updateCloseLeadField w e leadId r2PublicUrl tr3)
                                       else tr3)
                                in
                                  (case createCloseNote w e leadId filename closeFileUrl
                                          contentType itemName itemId tr4 of
                                     (Thrown, tr5) \<Rightarrow> (Thrown, tr5)
                                   | (Ret noteCreated, tr5) \<Rightarrow>
                                       (Ret (if noteCreated then Synced else NoteFailed), tr5)))))))"

fun processAssets ::
  "platform \<Rightarrow> env \<Rightarrow> jsval \<Rightarrow> jsval \<Rightarrow> jsval \<Rightarrow> jsval list \<Rightarrow> call list
     \<Rightarrow> assetResult list outcome \<times> call list" where
  "processAssets w e itemId leadId itemName [] tr = (Ret [], tr)"
| "processAssets w e itemId leadId itemName (asset # rest) tr =
     (case processAsset w e itemId leadId itemName asset tr of
        (Thrown, tr1) \<Rightarrow> (Thrown, tr1)
      | (Ret r, tr1) \<Rightarrow>
          (case processAssets w e itemId leadId itemName rest tr1 of
             (Thrown, tr2) \<Rightarrow> (Thrown, tr2)
           | (Ret rs, tr2) \<Rightarrow> (Ret (r # rs), tr2)))"

definition respondWith :: "nat \<Rightarrow> string \<Rightarrow> response" where
  "respondWith st txt = \<lparr>status = st, body = Text txt\<rparr>"

text \<open>Lines 42 to 67: the item identifier of the body, or the response of an early
  return. Every receiver read here is truthy, so no read throws.\<close>

definition extractItemId :: "env \<Rightarrow> jsval \<Rightarrow> response + jsval" where
  \<open>extractItemId e b =
     (if truthy (readProp b ''event'') then
        let event = readProp b ''event'' in
        if truthy (readProp event ''columnId'')
           \<and> readProp event ''columnId'' \<noteq> JStr (NAFA_FILE_COLUMN_ID e)
        then Inl (respondWith 200 ''Ignoring non-NAFA column change'')
        else if truthy (readProp event ''value'')
                \<and> (readProp event ''value'' = JStr ''{}''
                     \<or> readProp event ''value'' = JStr ''{"files":[]}'')
        then Inl (respondWith 200 ''File was removed, skipping'')
        else Inr (jsOr (readProp event ''pulseId'') (readProp event ''itemId''))
      else if truthy (readProp b ''payload'') then
        let payload = readProp b ''payload'';
            fields = jsOr (jsOr (readProp payload ''inputFields'')
                                (readProp payload ''inboundFieldValues'')) (JObj []);
            itemId = jsOr (readProp fields ''itemId'') (readProp fields ''pulseId'')
        in if \<not> truthy itemId \<and> truthy (readProp payload ''itemId'')
           then Inr (readProp payload ''itemId'') else Inr itemId
      else Inr (jsOr (readProp b ''itemId'') (readProp b ''pulseId'')))\<close>

text \<open>Lines 69 to 134: from the check of the identifier to the final \<^verbatim>\<open>OK\<close>.\<close>

definition syncItem ::
  "platform \<Rightarrow> env \<Rightarrow> jsval \<Rightarrow> call list \<Rightarrow> response outcome \<times> call list" where
  "syncItem w e itemId tr =
     (if \<not> truthy itemId then (Ret (respondWith 200 ''No item ID found in payload''), tr)
      else
        (case getMondayItemData w e itemId tr of
           (Thrown, tr1) \<Rightarrow> (Thrown, tr1)
         | (Ret None, tr1) \<Rightarrow> (Ret (respondWith 500 ''Failed to fetch item data''), tr1)
         | (Ret (Some itemData), tr1) \<Rightarrow>
             if \<not> truthy (closeLeadId itemData)
             then (Ret (respondWith 200 ''No Close Lead ID on item''), tr1)
             else if length (assets itemData) = 0
             then (Ret (respondWith 200 ''No file assets found''), tr1)
             else
               (case processAssets w e itemId (closeLeadId itemData) (name itemData)
                       (assets itemData) tr1 of
                  (Thrown, tr2) \<Rightarrow> (Thrown, tr2)
                | (Ret rs, tr2) \<Rightarrow> (Ret (respondWith 200 ''OK''), tr2))))"

text \<open>The \<^verbatim>\<open>try\<close> block (lines 32 to 134), started with no call made.\<close>

definition tryBlock :: "platform \<Rightarrow> env \<Rightarrow> request \<Rightarrow> response outcome \<times> call list" where
  "tryBlock w e request =
     (case json request of
        None \<Rightarrow> (Thrown, [])
      | Some b \<Rightarrow>
          (case get b ''challenge'' of
             Thrown \<Rightarrow> (Thrown, [])
           | Ret challenge \<Rightarrow>
               if truthy challenge
               then (Ret \<lparr>status = 200, body = JsonText (JObj [(''challenge'', challenge)])\<rparr>, [])
               else
                 (case extractItemId e b of
                    Inl early \<Rightarrow> (Ret early, [])
                  | Inr itemId \<Rightarrow> syncItem w e itemId [])))"

text \<open>\<^verbatim>\<open>fetch(request, env)\<close>: the response and the outbound calls made, in order.\<close>

definition fetch :: "platform \<Rightarrow> env \<Rightarrow> request \<Rightarrow> response \<times> call list" where
  "fetch w e request =
     (if method request \<noteq> ''POST'' then (respondWith 405 ''Method not allowed'', [])
      else
        (case tryBlock w e request of
           (Thrown, tr) \<Rightarrow> (respondWith 500 ''Internal error'', tr)
         | (Ret r, tr) \<Rightarrow> (r, tr)))"

section \<open>Example configuration, replies and worlds\<close>

text \<open>
  Concrete inputs on which the theorems below are evaluated: a configuration, an item with
  three assets created on three consecutive days, the replies of the services when all
  goes well, and worlds in which one service fails. \<open>isoDates\<close> gives the time values
  of the three dates used (and of a number within the range of dates, which is its own
  time value).
\<close>

definition env0 :: env where
  "env0 = \<lparr>MONDAY_API_TOKEN = ''tok'', CLOSE_API_KEY = ''key'', NAFA_FILE_COLUMN_ID = ''files'',
         CLOSE_LEAD_ID_COLUMN_ID = ''lead'', CLOSE_NAFA_URL_FIELD_ID = ''cf_1'',
         R2_PUBLIC_URL = ''https://pub.example''\<rparr>"

definition post :: "jsval \<Rightarrow> request" where
  "post b = \<lparr>method = ''POST'', json = Some b\<rparr>"

definition isoDates :: "jsval \<Rightarrow> int option" where
  "isoDates v =
     (case v of
        JStr s \<Rightarrow> map_of [(''2024-01-01T00:00:00Z'', 1704067200000),
                           (''2024-01-02T00:00:00Z'', 1704153600000),
                           (''2024-01-03T00:00:00Z'', 1704240000000)] s
      | JNum n \<Rightarrow>
          if - 8640000000000000 \<le> n \<and> n \<le> 8640000000000000 then Some n else None
      | _ \<Rightarrow> None)"

definition assetT1 :: jsval where
  "assetT1 = JObj [(''id'', JStr ''a1''), (''name'', JStr ''old.pdf''),
                   (''public_url'', JStr ''https://files.example/a1''),
                   (''created_at'', JStr ''2024-01-01T00:00:00Z'')]"

definition assetT2 :: jsval where
  "assetT2 = JObj [(''id'', JStr ''a2''), (''name'', JStr ''mid.pdf''),
                   (''public_url'', JStr ''https://files.example/a2''),
                   (''created_at'', JStr ''2024-01-02T00:00:00Z'')]"

definition assetT3 :: jsval where
  "assetT3 = JObj [(''id'', JStr ''a3''), (''name'', JStr ''a b.pdf''),
                   (''public_url'', JStr ''https://files.example/a3''),
                   (''created_at'', JStr ''2024-01-03T00:00:00Z'')]"

definition item0 :: jsval where
  "item0 = JObj [(''id'', JStr ''123''), (''name'', JStr ''Jane Doe''),
                 (''column_values'', JArr [JObj [(''id'', JStr ''lead''), (''text'', JStr '' lead_1 '')]]),
                 (''assets'', JArr [assetT2, assetT3, assetT1])]"

definition mondayData :: jsval where
  "mondayData = JObj [(''data'', JObj [(''items'', JArr [item0])])]"

definition mondayErrors :: jsval where
  "mondayErrors = JObj [(''errors'', JArr [JObj [(''message'', JStr ''Not Authenticated'')]])]"

definition closeInitData :: jsval where
  "closeInitData =
     JObj [(''upload'', JObj [(''url'', JStr ''https://s3.example/up''),
                              (''fields'', JObj [(''key'', JStr ''k'')])]),
           (''download'', JObj [(''url'', JStr ''https://close.example/dl/1'')])]"

fun happyReply :: "call \<Rightarrow> reply" where
  "happyReply (MondayQuery t i c l) = Reply 200 (Some mondayData) []"
| "happyReply (MondayDownload u) = Reply 200 None ''%PDF''"
| "happyReply (CloseFileInit k f m) = Reply 200 (Some closeInitData) []"
| "happyReply (S3Upload u fs f m d) = Reply 204 None []"
| "happyReply (R2Put k d m) = Reply 200 None []"
| "happyReply (CloseLeadPut k l f u) = Reply 200 (Some (JObj [])) []"
| "happyReply (CloseNotePost k l f u m n) = Reply 200 (Some (JObj [])) []"

definition happyWorld :: platform where
  "happyWorld = \<lparr>respond = (\<lambda>tr c. happyReply c), dateValue = isoDates\<rparr>"

definition mondayErrorWorld :: platform where
  "mondayErrorWorld =
     \<lparr>respond = (\<lambda>tr c. case c of MondayQuery t i cl l \<Rightarrow> Reply 200 (Some mondayErrors) []
                            | _ \<Rightarrow> happyReply c),
      dateValue = isoDates\<rparr>"

definition closeDownWorld :: platform where
  "closeDownWorld =
     \<lparr>respond = (\<lambda>tr c. case c of CloseFileInit k f m \<Rightarrow> Threw | _ \<Rightarrow> happyReply c),
      dateValue = isoDates\<rparr>"

definition r2DownWorld :: platform where
  "r2DownWorld =
     \<lparr>respond = (\<lambda>tr c. case c of R2Put k d m \<Rightarrow> Threw | _ \<Rightarrow> happyReply c),
      dateValue = isoDates\<rparr>"

section \<open>Properties of the payload normalizer\<close>

lemma truthy_readProp_not_nullish: "truthy (readProp b k) \<Longrightarrow> \<not> nullish b"
  by (cases b) (simp_all add: nullish_def)

subsection \<open>The challenge handshake\<close>

text \<open>
  Claim C5, amended. For every POST body whose \<^verbatim>\<open>challenge\<close> field holds a truthy value
  \<open>x\<close>, the response is the JSON text of \<^verbatim>\<open>{challenge: x}\<close> with status 200, whatever
  else the body holds, and no outbound call is made. The guard of the source is
  \<^verbatim>\<open>if (body.challenge)\<close>, so a falsy value (\<^verbatim>\<open>""\<close>, \<^verbatim>\<open>0\<close>, \<^verbatim>\<open>false\<close>, \<^verbatim>\<open>null\<close>) is
  not echoed.
\<close>

theorem challenge_echo:
  assumes "method request = ''POST''"
      and "json request = Some b"
      and "readProp b ''challenge'' = x"
      and "truthy x"
  shows "fetch w e request = (\<lparr>status = 200, body = JsonText (JObj [(''challenge'', x)])\<rparr>, [])"
proof -
  from assms(3,4) have "\<not> nullish b"
    using truthy_readProp_not_nullish by blast
  then have "get b ''challenge'' = Ret x"
    using assms(3) by (simp add: get_def)
  then have "tryBlock w e request = (Ret \<lparr>status = 200, body = JsonText (JObj [(''challenge'', x)])\<rparr>, [])"
    using assms(2,4) by (simp add: tryBlock_def)
  then show ?thesis
    using assms(1) by (simp add: fetch_def)
qed

text \<open>The theorem at a body that carries an event beside the challenge.\<close>

theorem challenge_echo_witness:
  "fetch happyWorld env0 (post (JObj [(''event'', JObj [(''pulseId'', JNum 123)]), (''challenge'', JStr ''abc123'')]))
     = (\<lparr>status = 200, body = JsonText (JObj [(''challenge'', JStr ''abc123'')])\<rparr>, [])"
  using challenge_echo [of "post (JObj [(''event'', JObj [(''pulseId'', JNum 123)]), (''challenge'', JStr ''abc123'')])"
      "JObj [(''event'', JObj [(''pulseId'', JNum 123)]), (''challenge'', JStr ''abc123'')]" "JStr ''abc123''" happyWorld env0]
  by (simp add: post_def)

text \<open>The claim as stated fails at the empty challenge string: the handler goes on to
  look for an item identifier.\<close>

theorem falsy_challenge_counterexample:
  "fetch happyWorld env0 (post (JObj [(''challenge'', JStr [])]))
     = (respondWith 200 ''No item ID found in payload'', [])
   \<and> fst (fetch happyWorld env0 (post (JObj [(''challenge'', JStr [])])))
     \<noteq> \<lparr>status = 200, body = JsonText (JObj [(''challenge'', JStr [])])\<rparr>"
  by (simp add: fetch_def tryBlock_def post_def get_def nullish_def extractItemId_def jsOr_def
      syncItem_def respondWith_def)

subsection \<open>Removed files\<close>

text \<open>
  Claim C6. For every event payload whose \<^verbatim>\<open>value\<close> is the string \<^verbatim>\<open>{}\<close> or the string
  \<^verbatim>\<open>{"files":[]}\<close>, the handler answers with status 200 and makes no outbound call.
\<close>

theorem removed_file_ignored:
  assumes "method request = ''POST''"
      and "json request = Some b"
      and "readProp (readProp b ''event'') ''value'' = JStr v"
      and \<open>v = ''{}'' \<or> v = ''{"files":[]}''\<close>
  shows "status (fst (fetch w e request)) = 200 \<and> snd (fetch w e request) = []"
proof -
  from assms(3) have ev: "\<not> nullish (readProp b ''event'')" "truthy (readProp b ''event'')"
    by (cases "readProp b ''event''"; simp add: nullish_def)+
  then have nb: "\<not> nullish b"
    using truthy_readProp_not_nullish by blast
  from assms(3,4) have tv: "truthy (readProp (readProp b ''event'') ''value'')"
    by auto
  have ex: "\<exists>r. extractItemId e b = Inl r \<and> status r = 200"
    using ev tv assms(3,4) by (auto simp add: extractItemId_def Let_def respondWith_def)
  then obtain r where r: "extractItemId e b = Inl r" "status r = 200" by blast
  show ?thesis
  proof (cases "truthy (readProp b ''challenge'')")
    case True
    then show ?thesis
      using assms(1,2) nb by (simp add: fetch_def tryBlock_def get_def)
  next
    case False
    then show ?thesis
      using assms(1,2) nb r by (simp add: fetch_def tryBlock_def get_def)
  qed
qed

text \<open>The theorem at an event of the target column whose file list is empty.\<close>

theorem removed_file_ignored_witness:
  \<open>status (fst (fetch happyWorld env0
       (post (JObj [(''event'', JObj [(''pulseId'', JNum 123), (''columnId'', JStr ''files''),
                                      (''value'', JStr ''{"files":[]}'')])])))) = 200
   \<and> snd (fetch happyWorld env0
       (post (JObj [(''event'', JObj [(''pulseId'', JNum 123), (''columnId'', JStr ''files''),
                                      (''value'', JStr ''{"files":[]}'')])]))) = []\<close>
  using removed_file_ignored [of
      \<open>post (JObj [(''event'', JObj [(''pulseId'', JNum 123), (''columnId'', JStr ''files''),
                                      (''value'', JStr ''{"files":[]}'')])])\<close>
      \<open>JObj [(''event'', JObj [(''pulseId'', JNum 123), (''columnId'', JStr ''files''),
                                      (''value'', JStr ''{"files":[]}'')])]\<close>
      \<open>''{"files":[]}''\<close> happyWorld env0]
  by (simp add: post_def)

subsection \<open>Falsy item identifiers\<close>

text \<open>
  Claim C10. For every payload without a truthy challenge from which the extracted item
  identifier is falsy (\<^verbatim>\<open>0\<close>, \<^verbatim>\<open>""\<close>, \<^verbatim>\<open>null\<close>, \<^verbatim>\<open>undefined\<close>, \<^verbatim>\<open>false\<close>), the handler
  answers with status 200 and the body \<^verbatim>\<open>No item ID found in payload\<close>, and makes no
  outbound call.
\<close>

theorem falsy_item_id:
  assumes "method request = ''POST''"
      and "json request = Some b"
      and "get b ''challenge'' = Ret c"
      and "\<not> truthy c"
      and "extractItemId e b = Inr itemId"
      and "\<not> truthy itemId"
  shows "fetch w e request = (respondWith 200 ''No item ID found in payload'', [])"
  using assms by (simp add: fetch_def tryBlock_def syncItem_def)

text \<open>The theorem at an event whose \<^verbatim>\<open>pulseId\<close> is \<^verbatim>\<open>0\<close> and whose \<^verbatim>\<open>itemId\<close> is
  the empty string.\<close>

theorem falsy_item_id_witness:
  "fetch happyWorld env0 (post (JObj [(''event'', JObj [(''pulseId'', JNum 0), (''itemId'', JStr [])])]))
     = (respondWith 200 ''No item ID found in payload'', [])"
proof -
  let ?b = "JObj [(''event'', JObj [(''pulseId'', JNum 0), (''itemId'', JStr [])])]"
  have 1: "get ?b ''challenge'' = Ret JUndefined"
    by (simp add: get_def nullish_def)
  have 2: "extractItemId env0 ?b = Inr (JStr [])"
    by (simp add: extractItemId_def jsOr_def)
  show ?thesis
    using falsy_item_id [of "post ?b" ?b JUndefined env0 "JStr []" happyWorld] 1 2
    by (simp add: post_def)
qed

section \<open>The calls each step makes\<close>

text \<open>Each helper appends its own calls to the calls made so far, and nothing else.\<close>

lemma downloadMondayFile_trace:
  "downloadMondayFile w u tr = (r, tr') \<Longrightarrow> tr' = tr \<or> tr' = tr @ [MondayDownload u]"
  by (auto simp add: downloadMondayFile_def perform_def split: if_splits reply.splits)

lemma downloadMondayFile_Some_trace:
  "downloadMondayFile w u tr = (Some d, tr') \<Longrightarrow> tr' = tr @ [MondayDownload u]"
  by (auto simp add: downloadMondayFile_def perform_def split: if_splits reply.splits)

lemma uploadFileToClose_trace:
  "uploadFileToClose w e f ct d tr = (r, tr') \<Longrightarrow>
     tr' = tr @ [CloseFileInit (CLOSE_API_KEY e) f ct]
     \<or> (\<exists>u fs. tr' = tr @ [CloseFileInit (CLOSE_API_KEY e) f ct, S3Upload u fs f ct d])"
  by (auto simp add: uploadFileToClose_def perform_def Let_def
      split: if_splits reply.splits option.splits outcome.splits)

lemma uploadFileToClose_truthy_trace:
  "uploadFileToClose w e f ct d tr = (Ret url, tr') \<Longrightarrow> truthy url \<Longrightarrow>
     \<exists>u fs. tr' = tr @ [CloseFileInit (CLOSE_API_KEY e) f ct, S3Upload u fs f ct d]"
  by (auto simp add: uploadFileToClose_def perform_def Let_def
      split: if_splits reply.splits option.splits outcome.splits)

lemma uploadFileToR2_trace:
  "snd (uploadFileToR2 w e f ct d i tr) = tr @ [R2Put (r2Key i f) d ct]"
  by (simp add: uploadFileToR2_def perform_def split: reply.splits)

lemma updateCloseLeadField_trace:
  "snd (updateCloseLeadField w e l u tr)
     = tr @ [CloseLeadPut (CLOSE_API_KEY e) (toStr l) (CLOSE_NAFA_URL_FIELD_ID e) (toStr u)]"
  by (simp add: updateCloseLeadField_def perform_def split: reply.splits)

lemma createCloseNote_trace:
  "snd (createCloseNote w e l f u ct n i tr)
     = tr @ [CloseNotePost (CLOSE_API_KEY e) (toStr l) f u ct n]"
  by (simp add: createCloseNote_def perform_def split: reply.splits)

lemma getMondayItemData_trace:
  "snd (getMondayItemData w e i tr)
     = tr @ [MondayQuery (MONDAY_API_TOKEN e) (toStr i) (NAFA_FILE_COLUMN_ID e)
               (CLOSE_LEAD_ID_COLUMN_ID e)]"
  by (simp add: getMondayItemData_def perform_def split: reply.splits option.splits)

lemma processAsset_extends: "\<exists>ys. snd (processAsset w e i l n a tr) = tr @ ys"
proof (cases "get a ''name''")
  case Thrown
  then show ?thesis by (simp add: processAsset_def)
next
  case (Ret f)
  obtain r1 tr1 where d: "downloadMondayFile w (readProp a ''public_url'') tr = (r1, tr1)"
    by (cases "downloadMondayFile w (readProp a ''public_url'') tr")
  then obtain ys1 where tr1: "tr1 = tr @ ys1"
    using downloadMondayFile_trace by fastforce
  show ?thesis
  proof (cases r1)
    case None
    then show ?thesis using Ret d tr1 by (simp add: processAsset_def)
  next
    case (Some fileData)
    show ?thesis
    proof (cases "getMimeType f")
      case Thrown
      then show ?thesis using Ret d Some tr1 by (simp add: processAsset_def)
    next
      case (Ret ct)
      obtain r2 tr2 where u: "uploadFileToClose w e f ct fileData tr1 = (r2, tr2)"
        by (cases "uploadFileToClose w e f ct fileData tr1")
      then obtain ys2 where tr2: "tr2 = tr1 @ ys2"
        using uploadFileToClose_trace by fastforce
      show ?thesis
      proof (cases r2)
        case Thrown
        then show ?thesis
          using \<open>get a ''name'' = Ret f\<close> d Some Ret u tr1 tr2 by (simp add: processAsset_def)
      next
        case (Ret url)
        note url = this
        show ?thesis
        proof (cases "truthy url")
          case False
          then show ?thesis
            using \<open>get a ''name'' = Ret f\<close> d Some \<open>getMimeType f = Ret ct\<close> u url tr1 tr2
            by (simp add: processAsset_def)
        next
          case True
          obtain r3 tr3 where m: "uploadFileToR2 w e f ct fileData i tr2 = (r3, tr3)"
            by (cases "uploadFileToR2 w e f ct fileData i tr2")
          then have tr3: "tr3 = tr2 @ [R2Put (r2Key i f) fileData ct]"
            using uploadFileToR2_trace [of w e f ct fileData i tr2] by simp
          define tr4 where "tr4 = (if truthy r3 then snd (updateCloseLeadField w e l r3 tr3) else tr3)"
          then have "\<exists>ys4. tr4 = tr3 @ ys4"
            by (simp add: updateCloseLeadField_trace)
          then obtain ys4 where tr4: "tr4 = tr3 @ ys4" ..
          obtain r5 tr5 where c: "createCloseNote w e l f url ct n i tr4 = (r5, tr5)"
            by (cases "createCloseNote w e l f url ct n i tr4")
          then have tr5: "tr5 = tr4 @ [CloseNotePost (CLOSE_API_KEY e) (toStr l) f url ct n]"
            using createCloseNote_trace [of w e l f url ct n i tr4] by simp
          have "snd (processAsset w e i l n a tr) = tr5"
            using \<open>get a ''name'' = Ret f\<close> d Some \<open>getMimeType f = Ret ct\<close> u url True m c tr4_def
            by (cases r5) (simp_all add: processAsset_def)
          then show ?thesis
            using tr1 tr2 tr3 tr4 tr5 by simp
        qed
      qed
    qed
  qed
qed

lemma processAssets_extends: "\<exists>ys. snd (processAssets w e i l n as tr) = tr @ ys"
proof (induction as arbitrary: tr)
  case Nil
  then show ?case by simp
next
  case (Cons a as)
  obtain r1 tr1 where p: "processAsset w e i l n a tr = (r1, tr1)"
    by (cases "processAsset w e i l n a tr")
  then obtain ys1 where tr1: "tr1 = tr @ ys1"
    using processAsset_extends [of w e i l n a tr] by auto
  show ?case
  proof (cases r1)
    case Thrown
    then show ?thesis using p tr1 by simp
  next
    case (Ret r)
    obtain r2 tr2 where q: "processAssets w e i l n as tr1 = (r2, tr2)"
      by (cases "processAssets w e i l n as tr1")
    then obtain ys2 where "tr2 = tr1 @ ys2"
      using Cons.IH [of tr1] by auto
    then show ?thesis
      using p Ret q tr1 by (cases r2) simp_all
  qed
qed

lemma syncItem_first_call:
  assumes "truthy i"
  shows "take 1 (snd (syncItem w e i []))
           = [MondayQuery (MONDAY_API_TOKEN e) (toStr i) (NAFA_FILE_COLUMN_ID e)
                (CLOSE_LEAD_ID_COLUMN_ID e)]"
proof -
  let ?q = "MondayQuery (MONDAY_API_TOKEN e) (toStr i) (NAFA_FILE_COLUMN_ID e) (CLOSE_LEAD_ID_COLUMN_ID e)"
  obtain r tr1 where g: "getMondayItemData w e i [] = (r, tr1)"
    by (cases "getMondayItemData w e i []")
  then have tr1: "tr1 = [?q]"
    using getMondayItemData_trace [of w e i "[]"] by simp
  have "\<exists>ys. snd (syncItem w e i []) = ?q # ys"
  proof (cases r)
    case Thrown
    then show ?thesis using assms g tr1 by (simp add: syncItem_def)
  next
    case (Ret d)
    show ?thesis
    proof (cases d)
      case None
      then show ?thesis using assms g tr1 Ret by (simp add: syncItem_def)
    next
      case (Some itemData)
      obtain r2 tr2 where p: "processAssets w e i (closeLeadId itemData) (name itemData) (assets itemData) tr1 = (r2, tr2)"
        by (cases "processAssets w e i (closeLeadId itemData) (name itemData) (assets itemData) tr1")
      then obtain ys where "tr2 = tr1 @ ys"
        using processAssets_extends [of w e i "closeLeadId itemData" "name itemData" "assets itemData" tr1]
        by auto
      then show ?thesis
        using assms g tr1 Ret Some p by (cases r2) (simp_all add: syncItem_def)
    qed
  qed
  then show ?thesis by auto
qed

section \<open>Properties of the orchestration\<close>

lemma fetch_syncItem:
  assumes "method request = ''POST''"
      and "json request = Some b"
      and "get b ''challenge'' = Ret c"
      and "\<not> truthy c"
      and "extractItemId e b = Inr itemId"
  shows "fetch w e request =
           (case syncItem w e itemId [] of
              (Thrown, tr) \<Rightarrow> (respondWith 500 ''Internal error'', tr)
            | (Ret r, tr) \<Rightarrow> (r, tr))"
  using assms by (simp add: fetch_def tryBlock_def)

lemma parseItemData_null:
  assumes "\<not> nullish data"
      and "truthy (readProp data ''errors'')
            \<or> \<not> truthy (optIndex0 (optGet (optGet data ''data'') ''items''))"
  shows "parseItemData w e data = Ret None"
  using assms by (auto simp add: parseItemData_def get_def Let_def)

subsection \<open>Failure of the metadata query\<close>

text \<open>
  Claim C1, amended. For every invocation that reaches the metadata query and in which
  the query's reply reports errors or holds no item, \<^verbatim>\<open>getMondayItemData\<close> returns
  \<^verbatim>\<open>null\<close> and the invocation halts after that single call; the response is HTTP 500
  with the body \<^verbatim>\<open>Failed to fetch item data\<close>, not a success status.
\<close>

theorem metadata_failure_halts_with_500:
  assumes "method request = ''POST''"
      and "json request = Some b"
      and "get b ''challenge'' = Ret c"
      and "\<not> truthy c"
      and "extractItemId e b = Inr itemId"
      and "truthy itemId"
      and "respond w [] (MondayQuery (MONDAY_API_TOKEN e) (toStr itemId) (NAFA_FILE_COLUMN_ID e)
                           (CLOSE_LEAD_ID_COLUMN_ID e)) = Reply st (Some data) bytes"
      and "\<not> nullish data"
      and "truthy (readProp data ''errors'')
            \<or> \<not> truthy (optIndex0 (optGet (optGet data ''data'') ''items''))"
  shows "getMondayItemData w e itemId []
           = (Ret None, [MondayQuery (MONDAY_API_TOKEN e) (toStr itemId) (NAFA_FILE_COLUMN_ID e)
                           (CLOSE_LEAD_ID_COLUMN_ID e)])
         \<and> fetch w e request
           = (respondWith 500 ''Failed to fetch item data'',
              [MondayQuery (MONDAY_API_TOKEN e) (toStr itemId) (NAFA_FILE_COLUMN_ID e)
                 (CLOSE_LEAD_ID_COLUMN_ID e)])"
proof -
  have p: "parseItemData w e data = Ret None"
    using assms(8,9) by (rule parseItemData_null)
  have g: "getMondayItemData w e itemId []
             = (Ret None, [MondayQuery (MONDAY_API_TOKEN e) (toStr itemId) (NAFA_FILE_COLUMN_ID e)
                             (CLOSE_LEAD_ID_COLUMN_ID e)])"
    using assms(7) p by (simp add: getMondayItemData_def perform_def)
  then have "syncItem w e itemId []
               = (Ret (respondWith 500 ''Failed to fetch item data''),
                  [MondayQuery (MONDAY_API_TOKEN e) (toStr itemId) (NAFA_FILE_COLUMN_ID e)
                     (CLOSE_LEAD_ID_COLUMN_ID e)])"
    using assms(6) by (simp add: syncItem_def)
  then show ?thesis
    using g fetch_syncItem [OF assms(1-5), of w] by simp
qed

text \<open>The theorem in the world whose metadata query answers with \<^verbatim>\<open>errors\<close>.\<close>

theorem metadata_failure_halts_with_500_witness:
  "getMondayItemData mondayErrorWorld env0 (JNum 123) []
     = (Ret None, [MondayQuery ''tok'' ''123'' ''files'' ''lead''])
   \<and> fetch mondayErrorWorld env0 (post (JObj [(''itemId'', JNum 123)]))
     = (respondWith 500 ''Failed to fetch item data'', [MondayQuery ''tok'' ''123'' ''files'' ''lead''])"
proof -
  let ?b = "JObj [(''itemId'', JNum 123)]"
  have s: "toStr (JNum 123) = ''123''" by code_simp
  have 1: "get ?b ''challenge'' = Ret JUndefined"
    by (simp add: get_def nullish_def)
  have 2: "extractItemId env0 ?b = Inr (JNum 123)"
    by (simp add: extractItemId_def jsOr_def)
  have 3: "respond mondayErrorWorld [] (MondayQuery (MONDAY_API_TOKEN env0) (toStr (JNum 123))
              (NAFA_FILE_COLUMN_ID env0) (CLOSE_LEAD_ID_COLUMN_ID env0)) = Reply 200 (Some mondayErrors) []"
    by (simp add: mondayErrorWorld_def)
  have 4: "\<not> nullish mondayErrors" "truthy (readProp mondayErrors ''errors'')"
    by (simp_all add: mondayErrors_def nullish_def)
  show ?thesis
    using metadata_failure_halts_with_500 [of "post ?b" ?b JUndefined env0 "JNum 123"
        mondayErrorWorld 200 mondayErrors "[]"] 1 2 3 4 s
    by (simp add: post_def env0_def)
qed

text \<open>The claim as stated fails there: the fetcher returns \<^verbatim>\<open>null\<close> and the status is
  500.\<close>

theorem metadata_failure_counterexample:
  "fst (getMondayItemData mondayErrorWorld env0 (JNum 123) []) = Ret None
   \<and> status (fst (fetch mondayErrorWorld env0 (post (JObj [(''itemId'', JNum 123)])))) = 500"
  by code_simp

subsection \<open>Events without a column identifier\<close>

lemma processAsset_mirrored_trace:
  assumes "get asset ''name'' = Ret filename"
      and "downloadMondayFile w (readProp asset ''public_url'') tr = (Some fileData, tr1)"
      and "getMimeType filename = Ret contentType"
      and "uploadFileToClose w e filename contentType fileData tr1 = (Ret closeFileUrl, tr2)"
      and "truthy closeFileUrl"
      and "fst (uploadFileToR2 w e filename contentType fileData itemId tr2) = r2PublicUrl"
      and "truthy r2PublicUrl"
  shows "\<exists>uploadUrl uploadFields.
           snd (processAsset w e itemId leadId itemName asset tr)
             = tr @ [MondayDownload (readProp asset ''public_url''),
                     CloseFileInit (CLOSE_API_KEY e) filename contentType,
                     S3Upload uploadUrl uploadFields filename contentType fileData,
                     R2Put (r2Key itemId filename) fileData contentType,
                     CloseLeadPut (CLOSE_API_KEY e) (toStr leadId) (CLOSE_NAFA_URL_FIELD_ID e)
                       (toStr r2PublicUrl),
                     CloseNotePost (CLOSE_API_KEY e) (toStr leadId) filename closeFileUrl
                       contentType itemName]"
proof -
  have tr1: "tr1 = tr @ [MondayDownload (readProp asset ''public_url'')]"
    using assms(2) by (rule downloadMondayFile_Some_trace)
  obtain u fs where tr2:
    "tr2 = tr1 @ [CloseFileInit (CLOSE_API_KEY e) filename contentType,
                  S3Upload u fs filename contentType fileData]"
    using uploadFileToClose_truthy_trace [OF assms(4,5)] by blast
  obtain r3 tr3 where m: "uploadFileToR2 w e filename contentType fileData itemId tr2 = (r3, tr3)"
    by (cases "uploadFileToR2 w e filename contentType fileData itemId tr2")
  then have r3: "r3 = r2PublicUrl"
    using assms(6) by simp
  have tr3: "tr3 = tr2 @ [R2Put (r2Key itemId filename) fileData contentType]"
    using m uploadFileToR2_trace [of w e filename contentType fileData itemId tr2] by simp
  define tr4 where "tr4 = snd (updateCloseLeadField w e leadId r2PublicUrl tr3)"
  then have tr4: "tr4 = tr3 @ [CloseLeadPut (CLOSE_API_KEY e) (toStr leadId)
                                 (CLOSE_NAFA_URL_FIELD_ID e) (toStr r2PublicUrl)]"
    by (simp add: updateCloseLeadField_trace)
  obtain r5 tr5 where c:
    "createCloseNote w e leadId filename closeFileUrl contentType itemName itemId tr4 = (r5, tr5)"
    by (cases "createCloseNote w e leadId filename closeFileUrl contentType itemName itemId tr4")
  then have tr5:
    "tr5 = tr4 @ [CloseNotePost (CLOSE_API_KEY e) (toStr leadId) filename closeFileUrl
                    contentType itemName]"
    using createCloseNote_trace [of w e leadId filename closeFileUrl contentType itemName itemId tr4]
    by simp
  have "snd (processAsset w e itemId leadId itemName asset tr) = tr5"
    using assms(1-5,7) m r3 c tr4_def by (cases r5) (simp_all add: processAsset_def)
  then show ?thesis
    using tr1 tr2 tr3 tr4 tr5 by simp
qed

lemma syncItem_single_asset_trace:
  assumes "truthy itemId"
      and "getMondayItemData w e itemId [] = (Ret (Some d), tr1)"
      and "truthy (closeLeadId d)"
      and "assets d = [asset]"
  shows "snd (syncItem w e itemId [])
           = snd (processAsset w e itemId (closeLeadId d) (name d) asset tr1)"
  using assms
  by (cases "processAsset w e itemId (closeLeadId d) (name d) asset tr1")
     (simp add: syncItem_def split: outcome.splits)

lemma syncItem_not_ignoring:
  "fst (case syncItem w e itemId [] of
          (Thrown, tr) \<Rightarrow> (respondWith 500 ''Internal error'', tr)
        | (Ret r, tr) \<Rightarrow> (r, tr))
     \<noteq> respondWith 200 ''Ignoring non-NAFA column change''"
  by (simp add: syncItem_def respondWith_def split: prod.splits outcome.splits option.splits)

text \<open>
  Claim C9, amended. For every event payload that lacks a \<^verbatim>\<open>columnId\<close> field, carries
  no truthy challenge and whose \<^verbatim>\<open>value\<close> is neither of the two removed-file strings,
  the column filter is skipped: the item identifier is \<^verbatim>\<open>pulseId || itemId\<close>, the
  handler's result is the pipeline's on that identifier, and the response is never
  \<^verbatim>\<open>Ignoring non-NAFA column change\<close>. When the identifier is truthy and coercible,
  the first outbound call is the metadata query for it. When moreover the reply gives an
  item with a lead identifier and a latest asset, and the download, the CRM upload and
  the mirror upload of that asset succeed, the calls made are exactly the metadata query,
  the download, the two steps of the CRM upload, the mirror put, the custom-field PUT and
  the note POST. The values the source converts to text on the way are taken coercible
  and the assets' dates valid, so that the functions are the source there.
\<close>

theorem missing_columnId_filter_skipped:
  assumes "method request = ''POST''"
      and "json request = Some b"
      and "\<not> truthy (readProp b ''challenge'')"
      and "readProp b ''event'' = JObj ev"
      and "map_of ev ''columnId'' = None"
      and \<open>readProp (JObj ev) ''value'' \<noteq> JStr ''{}''\<close>
      and \<open>readProp (JObj ev) ''value'' \<noteq> JStr ''{"files":[]}''\<close>
      and "itemId = jsOr (readProp (JObj ev) ''pulseId'') (readProp (JObj ev) ''itemId'')"
      and "q = MondayQuery (MONDAY_API_TOKEN e) (toStr itemId) (NAFA_FILE_COLUMN_ID e)
                 (CLOSE_LEAD_ID_COLUMN_ID e)"
  shows "extractItemId e b = Inr itemId
         \<and> fetch w e request =
             (case syncItem w e itemId [] of
                (Thrown, tr) \<Rightarrow> (respondWith 500 ''Internal error'', tr)
              | (Ret r, tr) \<Rightarrow> (r, tr))
         \<and> fst (fetch w e request) \<noteq> respondWith 200 ''Ignoring non-NAFA column change''
         \<and> (truthy itemId \<and> coercible itemId \<longrightarrow> take 1 (snd (fetch w e request)) = [q])
         \<and> (truthy itemId \<and> coercible itemId
              \<and> respond w [] q = Reply st (Some data) bytes
              \<and> parseItemData w e data = Ret (Some d)
              \<and> jsOr (readProp (optIndex0 (optGet (optGet data ''data'') ''items'')) ''assets'')
                   (JArr []) = JArr allAssets
              \<and> (\<forall>a\<in>set allAssets. createdAt w a \<noteq> None)
              \<and> truthy (closeLeadId d) \<and> coercible (name d) \<and> assets d = [asset]
              \<and> get asset ''name'' = Ret filename \<and> coercible (readProp asset ''id'')
              \<and> downloadMondayFile w (readProp asset ''public_url'') [q] = (Some fileData, trD)
              \<and> getMimeType filename = Ret contentType
              \<and> uploadFileToClose w e filename contentType fileData trD = (Ret closeFileUrl, trU)
              \<and> truthy closeFileUrl \<and> coercible closeFileUrl
              \<and> fst (uploadFileToR2 w e filename contentType fileData itemId trU) = r2PublicUrl
              \<and> truthy r2PublicUrl
            \<longrightarrow> (\<exists>uploadUrl uploadFields.
                   snd (fetch w e request)
                     = [q,
                        MondayDownload (readProp asset ''public_url''),
                        CloseFileInit (CLOSE_API_KEY e) filename contentType,
                        S3Upload uploadUrl uploadFields filename contentType fileData,
                        R2Put (r2Key itemId filename) fileData contentType,
                        CloseLeadPut (CLOSE_API_KEY e) (toStr (closeLeadId d))
                          (CLOSE_NAFA_URL_FIELD_ID e) (toStr r2PublicUrl),
                        CloseNotePost (CLOSE_API_KEY e) (toStr (closeLeadId d)) filename
                          closeFileUrl contentType (name d)]))"
proof -
  have nb: "\<not> nullish b"
    using assms(4) by (cases b) (simp_all add: nullish_def)
  then have c: "get b ''challenge'' = Ret (readProp b ''challenge'')"
    by (simp add: get_def)
  have x: "extractItemId e b = Inr itemId"
    using assms(4-8) by (simp add: extractItemId_def)
  have f: "fetch w e request =
             (case syncItem w e itemId [] of
                (Thrown, tr) \<Rightarrow> (respondWith 500 ''Internal error'', tr)
              | (Ret r, tr) \<Rightarrow> (r, tr))"
    using fetch_syncItem [OF assms(1,2) c assms(3) x] .
  have ni: "fst (fetch w e request) \<noteq> respondWith 200 ''Ignoring non-NAFA column change''"
    unfolding f by (rule syncItem_not_ignoring)
  have sf: "snd (fetch w e request) = snd (syncItem w e itemId [])"
    unfolding f by (cases "syncItem w e itemId []") (simp split: outcome.splits)
  have first: "truthy itemId \<and> coercible itemId \<longrightarrow> take 1 (snd (fetch w e request)) = [q]"
    using sf syncItem_first_call [of itemId w e] assms(9) by simp
  have full: "\<exists>uploadUrl uploadFields.
                snd (fetch w e request)
                  = [q,
                     MondayDownload (readProp asset ''public_url''),
                     CloseFileInit (CLOSE_API_KEY e) filename contentType,
                     S3Upload uploadUrl uploadFields filename contentType fileData,
                     R2Put (r2Key itemId filename) fileData contentType,
                     CloseLeadPut (CLOSE_API_KEY e) (toStr (closeLeadId d))
                       (CLOSE_NAFA_URL_FIELD_ID e) (toStr r2PublicUrl),
                     CloseNotePost (CLOSE_API_KEY e) (toStr (closeLeadId d)) filename
                       closeFileUrl contentType (name d)]"
    if t: "truthy itemId"
      and r: "respond w [] q = Reply st (Some data) bytes"
      and p: "parseItemData w e data = Ret (Some d)"
      and l: "truthy (closeLeadId d)"
      and a: "assets d = [asset]"
      and n: "get asset ''name'' = Ret filename"
      and dl: "downloadMondayFile w (readProp asset ''public_url'') [q] = (Some fileData, trD)"
      and m: "getMimeType filename = Ret contentType"
      and u: "uploadFileToClose w e filename contentType fileData trD = (Ret closeFileUrl, trU)"
      and tu: "truthy closeFileUrl"
      and r2: "fst (uploadFileToR2 w e filename contentType fileData itemId trU) = r2PublicUrl"
      and trD: "truthy r2PublicUrl"
  proof -
    have g: "getMondayItemData w e itemId [] = (Ret (Some d), [q])"
      using r p assms(9) by (simp add: getMondayItemData_def perform_def)
    have "snd (syncItem w e itemId [])
            = snd (processAsset w e itemId (closeLeadId d) (name d) asset [q])"
      using syncItem_single_asset_trace [OF t g l a] .
    then show ?thesis
      using processAsset_mirrored_trace [OF n dl m u tu r2 trD, of "closeLeadId d" "name d"] sf
      by simp
  qed
  show ?thesis
    using x f ni first full by blast
qed

text \<open>The theorem at an event that holds only a \<^verbatim>\<open>pulseId\<close>, in the world where
  every service succeeds: all seven calls are made.\<close>

theorem missing_columnId_filter_skipped_witness:
  "extractItemId env0 (JObj [(''event'', JObj [(''pulseId'', JNum 123)])]) = Inr (JNum 123)
   \<and> snd (fetch happyWorld env0 (post (JObj [(''event'', JObj [(''pulseId'', JNum 123)])])))
       = [MondayQuery ''tok'' ''123'' ''files'' ''lead'',
          MondayDownload (JStr ''https://files.example/a3''),
          CloseFileInit ''key'' (JStr ''a b.pdf'') (MimeStr ''application/pdf''),
          S3Upload (JStr ''https://s3.example/up'') (JObj [(''key'', JStr ''k'')]) (JStr ''a b.pdf'')
            (MimeStr ''application/pdf'') ''%PDF'',
          R2Put ''123/a b.pdf'' ''%PDF'' (MimeStr ''application/pdf''),
          CloseLeadPut ''key'' ''lead_1'' ''cf_1'' ''https://pub.example/123/a%20b.pdf'',
          CloseNotePost ''key'' ''lead_1'' (JStr ''a b.pdf'') (JStr ''https://close.example/dl/1'')
            (MimeStr ''application/pdf'') (JStr ''Jane Doe'')]"
proof -
  let ?ev = "[(''pulseId'', JNum 123)]"
  let ?b = "JObj [(''event'', JObj ?ev)]"
  let ?q = "MondayQuery (MONDAY_API_TOKEN env0) (toStr (JNum 123)) (NAFA_FILE_COLUMN_ID env0)
              (CLOSE_LEAD_ID_COLUMN_ID env0)"
  let ?d = "\<lparr>name = JStr ''Jane Doe'', closeLeadId = JStr ''lead_1'', assets = [assetT3]\<rparr>"
  let ?ct = "MimeStr ''application/pdf''"
  let ?f = "JStr ''a b.pdf''"
  let ?url = "JStr ''https://close.example/dl/1''"
  let ?dl = "MondayDownload (JStr ''https://files.example/a3'')"
  let ?s3 = "S3Upload (JStr ''https://s3.example/up'') (JObj [(''key'', JStr ''k'')]) ?f ?ct ''%PDF''"
  let ?tr2 = "[?q, ?dl]"
  let ?tr3 = "[?q, ?dl, CloseFileInit ''key'' ?f ?ct, ?s3]"
  let ?r2 = "JStr ''https://pub.example/123/a%20b.pdf''"
  have m: "method (post ?b) = ''POST''" "json (post ?b) = Some ?b"
    by (simp_all add: post_def)
  have c: "\<not> truthy (readProp ?b ''challenge'')" by simp
  have ev: "readProp ?b ''event'' = JObj ?ev" by simp
  have col: "map_of ?ev ''columnId'' = None" by simp
  have v1: \<open>readProp (JObj ?ev) ''value'' \<noteq> JStr ''{}''\<close> by simp
  have v2: \<open>readProp (JObj ?ev) ''value'' \<noteq> JStr ''{"files":[]}''\<close> by simp
  have i: "JNum 123 = jsOr (readProp (JObj ?ev) ''pulseId'') (readProp (JObj ?ev) ''itemId'')"
    by (simp add: jsOr_def)
  note t = missing_columnId_filter_skipped [OF m c ev col v1 v2 i refl,
      where e = env0 and w = happyWorld and st = 200 and data = mondayData and bytes = "[]"
        and d = "?d" and allAssets = "[assetT2, assetT3, assetT1]" and asset = assetT3
        and filename = "?f" and fileData = "''%PDF''" and trD = "?tr2" and contentType = "?ct"
        and closeFileUrl = "?url" and trU = "?tr3" and r2PublicUrl = "?r2"]
  have h1: "truthy (JNum 123) \<and> coercible (JNum 123)" by simp
  have h2: "respond happyWorld [] ?q = Reply 200 (Some mondayData) []"
    by (simp add: happyWorld_def)
  have h3: "parseItemData happyWorld env0 mondayData = Ret (Some ?d)"
    by code_simp
  have h4: "jsOr (readProp (optIndex0 (optGet (optGet mondayData ''data'') ''items'')) ''assets'')
              (JArr []) = JArr [assetT2, assetT3, assetT1]"
    by code_simp
  have h5: "\<forall>a\<in>set [assetT2, assetT3, assetT1]. createdAt happyWorld a \<noteq> None"
    by code_simp
  have h6: "truthy (closeLeadId ?d) \<and> coercible (name ?d) \<and> assets ?d = [assetT3]"
    by simp
  have h7: "get assetT3 ''name'' = Ret ?f \<and> coercible (readProp assetT3 ''id'')"
    by code_simp
  have h8: "downloadMondayFile happyWorld (readProp assetT3 ''public_url'') [?q] = (Some ''%PDF'', ?tr2)"
    by code_simp
  have h9: "getMimeType ?f = Ret ?ct"
    by code_simp
  have h10: "uploadFileToClose happyWorld env0 ?f ?ct ''%PDF'' ?tr2 = (Ret ?url, ?tr3)"
    by code_simp
  have h11: "truthy ?url \<and> coercible ?url" by simp
  have h12: "fst (uploadFileToR2 happyWorld env0 ?f ?ct ''%PDF'' (JNum 123) ?tr3) = ?r2"
    by code_simp
  have h13: "truthy ?r2" by simp
  obtain u fs where tr:
    "snd (fetch happyWorld env0 (post ?b))
       = [?q,
          MondayDownload (readProp assetT3 ''public_url''),
          CloseFileInit (CLOSE_API_KEY env0) ?f ?ct,
          S3Upload u fs ?f ?ct ''%PDF'',
          R2Put (r2Key (JNum 123) ?f) ''%PDF'' ?ct,
          CloseLeadPut (CLOSE_API_KEY env0) (toStr (closeLeadId ?d)) (CLOSE_NAFA_URL_FIELD_ID env0)
            (toStr ?r2),
          CloseNotePost (CLOSE_API_KEY env0) (toStr (closeLeadId ?d)) ?f ?url ?ct (name ?d)]"
    using t h1 h2 h3 h4 h5 h6 h7 h8 h9 h10 h11 h12 h13 by blast
  have s3: "snd (fetch happyWorld env0 (post ?b)) ! 3 = ?s3"
    by code_simp
  have q: "?q = MondayQuery ''tok'' ''123'' ''files'' ''lead''"
    by code_simp
  have p: "readProp assetT3 ''public_url'' = JStr ''https://files.example/a3''"
    by code_simp
  have k: "r2Key (JNum 123) ?f = ''123/a b.pdf''"
    by code_simp
  have e: "CLOSE_API_KEY env0 = ''key''" "CLOSE_NAFA_URL_FIELD_ID env0 = ''cf_1''"
    by (simp_all add: env0_def)
  have "snd (fetch happyWorld env0 (post ?b))
       = [MondayQuery ''tok'' ''123'' ''files'' ''lead'',
          MondayDownload (JStr ''https://files.example/a3''),
          CloseFileInit ''key'' ?f ?ct, ?s3,
          R2Put ''123/a b.pdf'' ''%PDF'' ?ct,
          CloseLeadPut ''key'' ''lead_1'' ''cf_1'' ''https://pub.example/123/a%20b.pdf'',
          CloseNotePost ''key'' ''lead_1'' ?f ?url ?ct (JStr ''Jane Doe'')]"
    using tr s3 unfolding q p k e by simp
  with t [THEN conjunct1] show ?thesis ..
qed

text \<open>The claim as stated fails at an event without \<^verbatim>\<open>columnId\<close> whose value is the
  string \<^verbatim>\<open>{}\<close>: the notification is ignored as a removed file and no call is made.\<close>

theorem missing_columnId_removed_value_counterexample:
  "map_of [(''pulseId'', JNum 123), (''value'', JStr ''{}'')] ''columnId'' = None
   \<and> fetch happyWorld env0
       (post (JObj [(''event'', JObj [(''pulseId'', JNum 123), (''value'', JStr ''{}'')])]))
     = (respondWith 200 ''File was removed, skipping'', [])"
  by (simp add: fetch_def tryBlock_def post_def get_def nullish_def extractItemId_def)

subsection \<open>A failing mirror upload\<close>

text \<open>
  Claim C4. For every asset whose download and CRM upload succeed (the upload returns a
  truthy download URL) and whose mirror-store upload returns \<^verbatim>\<open>null\<close>, the iteration
  makes exactly these calls: the download, the two steps of the CRM upload, the mirror
  put, and the note POST, whose attachment URL is the CRM download URL. No custom-field
  PUT is among them.
\<close>

theorem note_created_when_mirror_fails:
  assumes "get asset ''name'' = Ret filename"
      and "downloadMondayFile w (readProp asset ''public_url'') tr = (Some fileData, tr1)"
      and "getMimeType filename = Ret contentType"
      and "uploadFileToClose w e filename contentType fileData tr1 = (Ret closeFileUrl, tr2)"
      and "truthy closeFileUrl"
      and "fst (uploadFileToR2 w e filename contentType fileData itemId tr2) = JNull"
  shows "\<exists>uploadUrl uploadFields.
           snd (processAsset w e itemId leadId itemName asset tr)
             = tr @ [MondayDownload (readProp asset ''public_url''),
                     CloseFileInit (CLOSE_API_KEY e) filename contentType,
                     S3Upload uploadUrl uploadFields filename contentType fileData,
                     R2Put (r2Key itemId filename) fileData contentType,
                     CloseNotePost (CLOSE_API_KEY e) (toStr leadId) filename closeFileUrl
                       contentType itemName]"
proof -
  have tr1: "tr1 = tr @ [MondayDownload (readProp asset ''public_url'')]"
    using assms(2) by (rule downloadMondayFile_Some_trace)
  obtain u fs where tr2:
    "tr2 = tr1 @ [CloseFileInit (CLOSE_API_KEY e) filename contentType,
                  S3Upload u fs filename contentType fileData]"
    using uploadFileToClose_truthy_trace [OF assms(4,5)] by blast
  obtain r3 tr3 where m: "uploadFileToR2 w e filename contentType fileData itemId tr2 = (r3, tr3)"
    by (cases "uploadFileToR2 w e filename contentType fileData itemId tr2")
  then have r3: "r3 = JNull"
    using assms(6) by simp
  have tr3: "tr3 = tr2 @ [R2Put (r2Key itemId filename) fileData contentType]"
    using m uploadFileToR2_trace [of w e filename contentType fileData itemId tr2] by simp
  obtain r5 tr5 where c:
    "createCloseNote w e leadId filename closeFileUrl contentType itemName itemId tr3 = (r5, tr5)"
    by (cases "createCloseNote w e leadId filename closeFileUrl contentType itemName itemId tr3")
  then have tr5:
    "tr5 = tr3 @ [CloseNotePost (CLOSE_API_KEY e) (toStr leadId) filename closeFileUrl
                    contentType itemName]"
    using createCloseNote_trace [of w e leadId filename closeFileUrl contentType itemName itemId tr3]
    by simp
  have "snd (processAsset w e itemId leadId itemName asset tr) = tr5"
    using assms(1-5) m r3 c by (cases r5) (simp_all add: processAsset_def)
  then show ?thesis
    using tr1 tr2 tr3 tr5 by simp
qed

text \<open>The theorem in the world whose bucket throws, on the newest asset of the item.\<close>

theorem note_created_when_mirror_fails_witness:
  "snd (processAsset r2DownWorld env0 (JNum 123) (JStr ''lead_1'') (JStr ''Jane Doe'') assetT3 [])
     = [MondayDownload (JStr ''https://files.example/a3''),
        CloseFileInit ''key'' (JStr ''a b.pdf'') (MimeStr ''application/pdf''),
        S3Upload (JStr ''https://s3.example/up'') (JObj [(''key'', JStr ''k'')]) (JStr ''a b.pdf'')
          (MimeStr ''application/pdf'') ''%PDF'',
        R2Put ''123/a b.pdf'' ''%PDF'' (MimeStr ''application/pdf''),
        CloseNotePost ''key'' ''lead_1'' (JStr ''a b.pdf'') (JStr ''https://close.example/dl/1'')
          (MimeStr ''application/pdf'') (JStr ''Jane Doe'')]"
proof -
  let ?c1 = "MondayDownload (JStr ''https://files.example/a3'')"
  let ?c2 = "CloseFileInit ''key'' (JStr ''a b.pdf'') (MimeStr ''application/pdf'')"
  let ?c3 = "S3Upload (JStr ''https://s3.example/up'') (JObj [(''key'', JStr ''k'')]) (JStr ''a b.pdf'')
          (MimeStr ''application/pdf'') ''%PDF''"
  have 1: "get assetT3 ''name'' = Ret (JStr ''a b.pdf'')"
    by code_simp
  have p: "readProp assetT3 ''public_url'' = JStr ''https://files.example/a3''"
    by code_simp
  have 2: "downloadMondayFile r2DownWorld (readProp assetT3 ''public_url'') [] = (Some ''%PDF'', [?c1])"
    by code_simp
  have 3: "getMimeType (JStr ''a b.pdf'') = Ret (MimeStr ''application/pdf'')"
    by code_simp
  have 4: "uploadFileToClose r2DownWorld env0 (JStr ''a b.pdf'') (MimeStr ''application/pdf'') ''%PDF'' [?c1]
             = (Ret (JStr ''https://close.example/dl/1''), [?c1, ?c2, ?c3])"
    by code_simp
  have 5: "truthy (JStr ''https://close.example/dl/1'')"
    by simp
  have 6: "fst (uploadFileToR2 r2DownWorld env0 (JStr ''a b.pdf'') (MimeStr ''application/pdf'') ''%PDF''
             (JNum 123) [?c1, ?c2, ?c3]) = JNull"
    by code_simp
  have k: "r2Key (JNum 123) (JStr ''a b.pdf'') = ''123/a b.pdf''"
    by code_simp
  have e: "CLOSE_API_KEY env0 = ''key''"
    by (simp add: env0_def)
  obtain u fs where
    "snd (processAsset r2DownWorld env0 (JNum 123) (JStr ''lead_1'') (JStr ''Jane Doe'') assetT3 [])
       = [] @ [MondayDownload (readProp assetT3 ''public_url''),
               CloseFileInit (CLOSE_API_KEY env0) (JStr ''a b.pdf'') (MimeStr ''application/pdf''),
               S3Upload u fs (JStr ''a b.pdf'') (MimeStr ''application/pdf'') ''%PDF'',
               R2Put (r2Key (JNum 123) (JStr ''a b.pdf'')) ''%PDF'' (MimeStr ''application/pdf''),
               CloseNotePost (CLOSE_API_KEY env0) (toStr (JStr ''lead_1'')) (JStr ''a b.pdf'')
                 (JStr ''https://close.example/dl/1'') (MimeStr ''application/pdf'') (JStr ''Jane Doe'')]"
    using note_created_when_mirror_fails [OF 1 2 3 4 5 6, of "JStr ''lead_1''" "JStr ''Jane Doe''"]
    by blast
  moreover have "snd (processAsset r2DownWorld env0 (JNum 123) (JStr ''lead_1'') (JStr ''Jane Doe'') assetT3 []) ! 2 = ?c3"
    by code_simp
  ultimately show ?thesis
    using p k e by simp
qed

subsection \<open>A throwing CRM upload\<close>

text \<open>Failures that a helper reports by its result end the iteration of that asset
  only.\<close>

lemma processAsset_download_failed:
  "get asset ''name'' = Ret filename \<Longrightarrow>
   downloadMondayFile w (readProp asset ''public_url'') tr = (None, tr1) \<Longrightarrow>
     processAsset w e itemId leadId itemName asset tr = (Ret DownloadFailed, tr1)"
  by (simp add: processAsset_def)

lemma processAsset_close_upload_failed:
  "get asset ''name'' = Ret filename \<Longrightarrow>
   downloadMondayFile w (readProp asset ''public_url'') tr = (Some fileData, tr1) \<Longrightarrow>
   getMimeType filename = Ret contentType \<Longrightarrow>
   uploadFileToClose w e filename contentType fileData tr1 = (Ret closeFileUrl, tr2) \<Longrightarrow>
   \<not> truthy closeFileUrl \<Longrightarrow>
     processAsset w e itemId leadId itemName asset tr = (Ret CloseUploadFailed, tr2)"
  by (simp add: processAsset_def)

text \<open>
  Claim C2 says that no failure of a per-asset step turns into HTTP 500. In the source
  \<^verbatim>\<open>downloadMondayFile\<close>, \<^verbatim>\<open>uploadFileToR2\<close> and \<^verbatim>\<open>updateCloseLeadField\<close> catch what
  their call throws; \<^verbatim>\<open>uploadFileToClose\<close> and \<^verbatim>\<open>createCloseNote\<close> do not. When the
  CRM is unreachable and the first \<^verbatim>\<open>fetch\<close> of the upload is rejected, the exception
  reaches the handler's \<^verbatim>\<open>catch\<close>: the asset had been downloaded, and the response is
  500.
\<close>

theorem close_upload_throw_aborts:
  "fetch closeDownWorld env0 (post (JObj [(''event'', JObj [(''pulseId'', JNum 123), (''columnId'', JStr ''files'')])]))
     = (respondWith 500 ''Internal error'',
        [MondayQuery ''tok'' ''123'' ''files'' ''lead'',
         MondayDownload (JStr ''https://files.example/a3''),
         CloseFileInit ''key'' (JStr ''a b.pdf'') (MimeStr ''application/pdf'')])"
  by code_simp

section \<open>Properties of the helpers\<close>

subsection \<open>MIME types\<close>

text \<open>What holds of the lookup: a name that ends in a dot and an extension of the table,
  in any mix of upper and lower case, gets the table's type; an extension that is neither
  in the table nor inherited gets the default.\<close>

lemma splitOn_not_Nil: "splitOn d s \<noteq> []"
  by (induction s) (simp_all split: list.split)

lemma splitOn_no_delim: "d \<notin> set x \<Longrightarrow> splitOn d x = [x]"
  by (induction x) auto

lemma splitOn_two: "d \<in> set s \<Longrightarrow> \<exists>p q qs. splitOn d s = p # q # qs"
proof (induction s)
  case Nil
  then show ?case by simp
next
  case (Cons c s)
  show ?case
  proof (cases "c = d")
    case True
    obtain q qs where "splitOn d s = q # qs"
      using splitOn_not_Nil [of d s] by (cases "splitOn d s") auto
    then show ?thesis using True by simp
  next
    case False
    then have "d \<in> set s" using Cons.prems by simp
    then obtain p q qs where "splitOn d s = p # q # qs"
      using Cons.IH by blast
    then show ?thesis using False by simp
  qed
qed

lemma last_splitOn_Cons: "d \<in> set s \<Longrightarrow> last (splitOn d (c # s)) = last (splitOn d s)"
proof -
  assume "d \<in> set s"
  then obtain p q qs where "splitOn d s = p # q # qs"
    using splitOn_two by blast
  then show ?thesis by simp
qed

lemma last_splitOn_suffix: "d \<notin> set x \<Longrightarrow> last (splitOn d (base @ d # x)) = x"
proof (induction base)
  case Nil
  then show ?case by (simp add: splitOn_no_delim)
next
  case (Cons c base)
  have "d \<in> set (base @ d # x)" by simp
  then have "last (splitOn d (c # base @ d # x)) = last (splitOn d (base @ d # x))"
    by (rule last_splitOn_Cons)
  then show ?case using Cons by simp
qed

lemma getMimeType_known_extension:
  assumes "CHR ''.'' \<notin> set ext"
      and "map_of mimeTypes (toLowerCase ext) = Some m"
  shows "getMimeType (JStr (base @ CHR ''.'' # ext)) = Ret (MimeStr m)"
proof -
  have "fileExt (base @ CHR ''.'' # ext) = toLowerCase ext"
    using last_splitOn_suffix [OF assms(1), of base] by (simp add: fileExt_def)
  then show ?thesis
    using assms(2) by (simp add: lookupMime_def)
qed

lemma getMimeType_unknown_extension:
  assumes "map_of mimeTypes (fileExt filename) = None"
      and "fileExt filename \<notin> set objectPrototypeKeys"
  shows "getMimeType (JStr filename) = Ret (MimeStr ''application/octet-stream'')"
  using assms by (simp add: lookupMime_def)

text \<open>
  Claim C8 says that a filename with no extension, or with an extension that is not in
  the table, gets \<^verbatim>\<open>application/octet-stream\<close>. The source takes the text after the
  last dot, and the whole name when there is no dot: the file named \<^verbatim>\<open>pdf\<close> gets
  \<^verbatim>\<open>application/pdf\<close>. It reads the table with \<^verbatim>\<open>mimeTypes[ext]\<close>, which also finds
  what the object inherits: for \<^verbatim>\<open>x.constructor\<close> the result is the function
  \<^verbatim>\<open>Object\<close>, not a MIME type.
\<close>

theorem getMimeType_default_missed:
  "getMimeType (JStr ''pdf'') = Ret (MimeStr ''application/pdf'')
   \<and> getMimeType (JStr ''x.constructor'') = Ret (Inherited ''constructor'')"
  by code_simp

subsection \<open>The mirror store's key and public URL\<close>

lemma hexValue_hexDigit: "n < 16 \<Longrightarrow> hexValue (hexDigit n) = Some n"
proof -
  have "\<forall>n\<in>set [0..<16]. hexValue (hexDigit n) = Some n"
    by code_simp
  then show "n < 16 \<Longrightarrow> hexValue (hexDigit n) = Some n"
    by simp
qed

lemma unreserved_hexDigit: "n < 16 \<Longrightarrow> unreserved (hexDigit n)"
proof -
  have "\<forall>n\<in>set [0..<16]. unreserved (hexDigit n)"
    by code_simp
  then show "n < 16 \<Longrightarrow> unreserved (hexDigit n)"
    by simp
qed

lemma percent_not_unreserved: "\<not> unreserved (CHR ''%'')"
  by code_simp

lemma of_char_less_256: "(of_char c :: nat) < 256"
  by (cases c) simp

lemma percentDecode_encodeByte:
  "percentDecode (encodeByte c @ rest) = map_option (\<lambda>t. c # t) (percentDecode rest)"
proof (cases "unreserved c")
  case True
  then have "c \<noteq> CHR ''%''"
    using percent_not_unreserved by auto
  then show ?thesis
    using True by (simp add: encodeByte_def)
next
  case False
  let ?n = "of_char c :: nat"
  have d: "?n div 16 < 16"
    using of_char_less_256 [of c] by arith
  have m: "?n mod 16 < 16"
    by simp
  have "char_of (?n div 16 * 16 + ?n mod 16) = c"
    by simp
  then show ?thesis
    using False hexValue_hexDigit [OF d] hexValue_hexDigit [OF m]
    by (cases "percentDecode rest") (simp_all add: encodeByte_def)
qed

lemma percentDecode_encodeURIComponent: "percentDecode (encodeURIComponent s) = Some s"
proof (induction s)
  case Nil
  then show ?case by (simp add: encodeURIComponent_def)
next
  case (Cons c s)
  have "encodeURIComponent (c # s) = encodeByte c @ encodeURIComponent s"
    by (simp add: encodeURIComponent_def)
  then show ?case
    using Cons.IH by (simp add: percentDecode_encodeByte)
qed

lemma encodeURIComponent_chars:
  "c \<in> set (encodeURIComponent s) \<Longrightarrow> unreserved c \<or> c = CHR ''%''"
proof (induction s)
  case Nil
  then show ?case by (simp add: encodeURIComponent_def)
next
  case (Cons a s)
  have d: "(of_char a :: nat) div 16 < 16"
    using of_char_less_256 [of a] by arith
  have m: "(of_char a :: nat) mod 16 < 16"
    by simp
  have "\<forall>x\<in>set (encodeByte a). unreserved x \<or> x = CHR ''%''"
    using unreserved_hexDigit [OF d] unreserved_hexDigit [OF m] by (simp add: encodeByte_def)
  moreover have "set (encodeURIComponent (a # s)) = set (encodeByte a) \<union> set (encodeURIComponent s)"
    by (simp add: encodeURIComponent_def)
  ultimately show ?case
    using Cons by auto
qed

text \<open>
  Claim C7. For every item identifier and filename, \<^verbatim>\<open>uploadFileToR2\<close> makes one put,
  under the key \<^verbatim>\<open><itemId>/<filename>\<close> with the filename as it is; when the put does
  not throw, the result is the base URL, a slash, and \<^verbatim>\<open><itemId>/<encoded filename>\<close>.
  The encoded filename is a percent-encoding of the filename: it decodes back to the
  filename and holds only unreserved characters and \<^verbatim>\<open>%\<close>.
\<close>

theorem r2_key_verbatim_url_encoded:
  "snd (uploadFileToR2 w e (JStr filename) contentType fileData itemId tr)
     = tr @ [R2Put (toStr itemId @ ''/'' @ filename) fileData contentType]
   \<and> (respond w tr (R2Put (toStr itemId @ ''/'' @ filename) fileData contentType) \<noteq> Threw \<longrightarrow>
        fst (uploadFileToR2 w e (JStr filename) contentType fileData itemId tr)
          = JStr (R2_PUBLIC_URL e @ ''/'' @ toStr itemId @ ''/'' @ encodeURIComponent filename))
   \<and> percentDecode (encodeURIComponent filename) = Some filename
   \<and> (\<forall>c\<in>set (encodeURIComponent filename). unreserved c \<or> c = CHR ''%'')"
proof -
  have k: "r2Key itemId (JStr filename) = toStr itemId @ ''/'' @ filename"
    by (simp add: r2Key_def)
  have 1: "snd (uploadFileToR2 w e (JStr filename) contentType fileData itemId tr)
             = tr @ [R2Put (toStr itemId @ ''/'' @ filename) fileData contentType]"
    using uploadFileToR2_trace [of w e "JStr filename" contentType fileData itemId tr] k by simp
  have 2: "respond w tr (R2Put (toStr itemId @ ''/'' @ filename) fileData contentType) \<noteq> Threw \<longrightarrow>
        fst (uploadFileToR2 w e (JStr filename) contentType fileData itemId tr)
          = JStr (R2_PUBLIC_URL e @ ''/'' @ toStr itemId @ ''/'' @ encodeURIComponent filename)"
    by (simp add: uploadFileToR2_def perform_def k encodedKey_def split: reply.splits)
  show ?thesis
    using 1 2 percentDecode_encodeURIComponent [of filename] encodeURIComponent_chars [of _ filename]
    by blast
qed

text \<open>The theorem at item \<^verbatim>\<open>123\<close> and filename \<^verbatim>\<open>a b.pdf\<close>.\<close>

theorem r2_key_verbatim_url_encoded_witness:
  "uploadFileToR2 happyWorld env0 (JStr ''a b.pdf'') (MimeStr ''application/pdf'') ''%PDF'' (JNum 123) []
     = (JStr ''https://pub.example/123/a%20b.pdf'',
        [R2Put ''123/a b.pdf'' ''%PDF'' (MimeStr ''application/pdf'')])"
proof -
  have s: "toStr (JNum 123) @ ''/'' @ ''a b.pdf'' = ''123/a b.pdf''"
    by code_simp
  have u: "R2_PUBLIC_URL env0 @ ''/'' @ toStr (JNum 123) @ ''/'' @ encodeURIComponent ''a b.pdf''
             = ''https://pub.example/123/a%20b.pdf''"
    by code_simp
  have r: "respond happyWorld [] (R2Put ''123/a b.pdf'' ''%PDF'' (MimeStr ''application/pdf'')) \<noteq> Threw"
    by (simp add: happyWorld_def)
  note t = r2_key_verbatim_url_encoded [of happyWorld env0 "''a b.pdf''" "MimeStr ''application/pdf''"
      "''%PDF''" "JNum 123" "[]", unfolded s u]
  from t r have "fst (uploadFileToR2 happyWorld env0 (JStr ''a b.pdf'') (MimeStr ''application/pdf'') ''%PDF'' (JNum 123) [])
       = JStr ''https://pub.example/123/a%20b.pdf''"
    by blast
  moreover from t have "snd (uploadFileToR2 happyWorld env0 (JStr ''a b.pdf'') (MimeStr ''application/pdf'') ''%PDF'' (JNum 123) [])
       = [] @ [R2Put ''123/a b.pdf'' ''%PDF'' (MimeStr ''application/pdf'')]"
    by blast
  ultimately show ?thesis
    by (simp add: prod_eq_iff)
qed

subsection \<open>The most recent asset\<close>

lemma set_insertBy: "set (insertBy cmp x ys) = insert x (set ys)"
  by (induction ys) auto

lemma set_sortBy: "set (sortBy cmp xs) = set xs"
  by (induction xs) (simp_all add: sortBy_def set_insertBy)

lemma byCreatedDesc_valid:
  "createdAt w a \<noteq> None \<Longrightarrow> createdAt w b \<noteq> None \<Longrightarrow>
     (byCreatedDesc w a b \<le> 0) = newerFirst w a b"
  by (auto simp add: byCreatedDesc_def newerFirst_def)

lemma sorted_insertBy:
  assumes "createdAt w x \<noteq> None"
      and "\<forall>y\<in>set ys. createdAt w y \<noteq> None"
      and "sorted_wrt (newerFirst w) ys"
  shows "sorted_wrt (newerFirst w) (insertBy (byCreatedDesc w) x ys)"
  using assms
proof (induction ys)
  case Nil
  then show ?case by simp
next
  case (Cons y ys)
  show ?case
  proof (cases "byCreatedDesc w x y \<le> 0")
    case True
    then have xy: "newerFirst w x y"
      using Cons.prems(1,2) byCreatedDesc_valid by simp
    have "\<forall>z\<in>set ys. newerFirst w x z"
      using xy Cons.prems(3) by (auto simp add: newerFirst_def)
    then show ?thesis
      using True xy Cons.prems(3) by simp
  next
    case False
    then have "\<not> newerFirst w x y"
      using Cons.prems(1,2) byCreatedDesc_valid by simp
    then have yx: "newerFirst w y x"
      by (simp add: newerFirst_def)
    have "sorted_wrt (newerFirst w) (insertBy (byCreatedDesc w) x ys)"
      using Cons by simp
    then show ?thesis
      using False yx Cons.prems(3) by (simp add: set_insertBy)
  qed
qed

lemma sorted_sortBy:
  "\<forall>y\<in>set xs. createdAt w y \<noteq> None \<Longrightarrow> sorted_wrt (newerFirst w) (sortBy (byCreatedDesc w) xs)"
proof (induction xs)
  case Nil
  then show ?case by (simp add: sortBy_def)
next
  case (Cons x xs)
  have "sortBy (byCreatedDesc w) (x # xs) = insertBy (byCreatedDesc w) x (sortBy (byCreatedDesc w) xs)"
    by (simp add: sortBy_def)
  then show ?case
    using Cons sorted_insertBy [of w x "sortBy (byCreatedDesc w) xs"] by (simp add: set_sortBy)
qed

lemma sortBy_head_newest:
  assumes "\<forall>y\<in>set xs. createdAt w y \<noteq> None"
      and "xs \<noteq> []"
  shows "\<exists>a rest. sortBy (byCreatedDesc w) xs = a # rest \<and> a \<in> set xs
           \<and> (\<forall>b\<in>set xs. newerFirst w a b)"
proof -
  have "set (sortBy (byCreatedDesc w) xs) = set xs"
    by (rule set_sortBy)
  then have "sortBy (byCreatedDesc w) xs \<noteq> []"
    using assms(2) by auto
  then obtain a rest where ar: "sortBy (byCreatedDesc w) xs = a # rest"
    by (cases "sortBy (byCreatedDesc w) xs") auto
  have s: "sorted_wrt (newerFirst w) (a # rest)"
    using sorted_sortBy [OF assms(1)] ar by simp
  have m: "set xs = insert a (set rest)"
    using set_sortBy [of "byCreatedDesc w" xs] ar by simp
  have "newerFirst w a a"
    by (simp add: newerFirst_def)
  then have "\<forall>b\<in>set xs. newerFirst w a b"
    using s m by auto
  then show ?thesis
    using ar m by auto
qed

lemma parseItemData_assets:
  "parseItemData w e data = Ret (Some d) \<Longrightarrow>
     latestAsset w (optIndex0 (optGet (optGet data ''data'') ''items'')) = Ret (assets d)"
  by (auto simp add: parseItemData_def Let_def split: outcome.splits if_splits)

lemma latestAsset_sorted:
  assumes "latestAsset w item = Ret l"
      and "jsOr (readProp item ''assets'') (JArr []) = JArr allAssets"
  shows "l = (case sortBy (byCreatedDesc w) allAssets of [] \<Rightarrow> [] | a # rest \<Rightarrow> [a])"
  using assms
  by (auto simp add: latestAsset_def sortAssets_def split: if_splits list.splits)

text \<open>
  Claim C3. Whenever \<^verbatim>\<open>getMondayItemData\<close> returns an item for a reply whose assets
  have valid, pairwise distinct creation timestamps, the returned list is empty when
  there are no assets, and otherwise holds exactly one asset, strictly newer than every
  other asset of the item; the handler's loop then runs its body once, on that asset.
\<close>

theorem only_latest_asset_processed:
  assumes "parseItemData w e data = Ret (Some d)"
      and "jsOr (readProp (optIndex0 (optGet (optGet data ''data'') ''items'')) ''assets'') (JArr [])
             = JArr allAssets"
      and "\<forall>a\<in>set allAssets. createdAt w a \<noteq> None"
      and "distinct (map (createdAt w) allAssets)"
  shows "(allAssets = [] \<longrightarrow> assets d = [])
         \<and> (allAssets \<noteq> [] \<longrightarrow>
              (\<exists>a\<in>set allAssets.
                 assets d = [a]
                 \<and> (\<forall>b\<in>set allAssets. b \<noteq> a \<longrightarrow> the (createdAt w b) < the (createdAt w a))
                 \<and> processAssets w e itemId leadId itemName (assets d) tr
                     = (case processAsset w e itemId leadId itemName a tr of
                          (Thrown, tr1) \<Rightarrow> (Thrown, tr1)
                        | (Ret r, tr1) \<Rightarrow> (Ret [r], tr1))))"
proof -
  have l: "assets d = (case sortBy (byCreatedDesc w) allAssets of [] \<Rightarrow> [] | a # rest \<Rightarrow> [a])"
    using latestAsset_sorted [OF parseItemData_assets [OF assms(1)] assms(2)] .
  have empty: "allAssets = [] \<longrightarrow> assets d = []"
    using l by (simp add: sortBy_def)
  have nonempty: "\<exists>a\<in>set allAssets.
                 assets d = [a]
                 \<and> (\<forall>b\<in>set allAssets. b \<noteq> a \<longrightarrow> the (createdAt w b) < the (createdAt w a))
                 \<and> processAssets w e itemId leadId itemName (assets d) tr
                     = (case processAsset w e itemId leadId itemName a tr of
                          (Thrown, tr1) \<Rightarrow> (Thrown, tr1)
                        | (Ret r, tr1) \<Rightarrow> (Ret [r], tr1))"
    if ne: "allAssets \<noteq> []"
  proof -
    obtain a rest where ar: "sortBy (byCreatedDesc w) allAssets = a # rest"
      and a: "a \<in> set allAssets" and mx: "\<forall>b\<in>set allAssets. newerFirst w a b"
      using sortBy_head_newest [OF assms(3) ne] by blast
    have d: "assets d = [a]"
      using l ar by simp
    have inj: "inj_on (createdAt w) (set allAssets)"
      using assms(4) by (simp add: distinct_map)
    have strict: "the (createdAt w b) < the (createdAt w a)" if b: "b \<in> set allAssets" "b \<noteq> a" for b
    proof -
      have "createdAt w b \<noteq> createdAt w a"
        using inj a b by (auto dest: inj_onD)
      moreover have "createdAt w b \<noteq> None" "createdAt w a \<noteq> None"
        using assms(3) a b by blast+
      moreover have "the (createdAt w b) \<le> the (createdAt w a)"
        using mx b(1) by (simp add: newerFirst_def)
      ultimately show ?thesis by auto
    qed
    have p: "processAssets w e itemId leadId itemName [a] tr
               = (case processAsset w e itemId leadId itemName a tr of
                    (Thrown, tr1) \<Rightarrow> (Thrown, tr1)
                  | (Ret r, tr1) \<Rightarrow> (Ret [r], tr1))"
      by (simp split: prod.splits outcome.splits)
    show ?thesis
      using a d strict p by auto
  qed
  show ?thesis
    using empty nonempty by blast
qed

text \<open>The theorem at the item with assets of 2 January, 3 January and 1 January: the
  asset of 3 January is returned.\<close>

theorem only_latest_asset_processed_witness:
  "parseItemData happyWorld env0 mondayData
     = Ret (Some \<lparr>name = JStr ''Jane Doe'', closeLeadId = JStr ''lead_1'', assets = [assetT3]\<rparr>)
   \<and> (\<exists>a\<in>set [assetT2, assetT3, assetT1].
         [assetT3] = [a]
         \<and> (\<forall>b\<in>set [assetT2, assetT3, assetT1].
               b \<noteq> a \<longrightarrow> the (createdAt happyWorld b) < the (createdAt happyWorld a)))"
proof -
  let ?d = "\<lparr>name = JStr ''Jane Doe'', closeLeadId = JStr ''lead_1'', assets = [assetT3]\<rparr>"
  let ?as = "[assetT2, assetT3, assetT1]"
  have 1: "parseItemData happyWorld env0 mondayData = Ret (Some ?d)"
    by code_simp
  have 2: "jsOr (readProp (optIndex0 (optGet (optGet mondayData ''data'') ''items'')) ''assets'') (JArr [])
             = JArr ?as"
    by code_simp
  have 3: "\<forall>a\<in>set ?as. createdAt happyWorld a \<noteq> None"
    by code_simp
  have 4: "distinct (map (createdAt happyWorld) ?as)"
    by code_simp
  have 5: "?as \<noteq> []"
    by simp
  have "\<exists>a\<in>set ?as.
          assets ?d = [a]
          \<and> (\<forall>b\<in>set ?as. b \<noteq> a \<longrightarrow> the (createdAt happyWorld b) < the (createdAt happyWorld a))"
    using only_latest_asset_processed [OF 1 2 3 4, of JNull JNull JNull "[]"] 5 by blast
  then show ?thesis
    using 1 by simp
qed

end
